theory Spec2Isabelle
  imports Main "HOL-Library.Char_ord" "HOL-Library.List_Lexorder"
begin

section \<open>DriveTime: artifact store, status lifecycle, day grouping, tool-call facade\<close>

text \<open>
  A shallow embedding of \<^verbatim>\<open>src/lib/store.ts\<close>, of the route handlers
  \<^verbatim>\<open>POST /api/artifacts\<close> and \<^verbatim>\<open>DELETE /api/artifacts/[id]\<close>, and of
  \<^verbatim>\<open>handleToolCall\<close> with the \<^verbatim>\<open>tools/call\<close> branch of the MCP route.

  Conventions.
  \<^item> A JavaScript string is a \<^typ>\<open>string\<close>; one list element stands for one code unit, so
    \<^verbatim>\<open>s.length\<close> is \<^term>\<open>length s\<close> and \<^verbatim>\<open>s.slice(0, n)\<close> is \<^term>\<open>take n s\<close>.
  \<^item> An optional field (\<^verbatim>\<open>x?: string\<close>, \<^verbatim>\<open>string | null\<close>) is an \<^typ>\<open>string option\<close>;
    \<^term>\<open>None\<close> is \<^verbatim>\<open>undefined\<close> on the domain side and \<^verbatim>\<open>null\<close> on the row side.
  \<^item> The string-literal unions \<^verbatim>\<open>ArtifactType\<close> and \<^verbatim>\<open>ArtifactStatus\<close> are datatypes; the
    unchecked casts \<^verbatim>\<open>row.type as Artifact['type']\<close> are the identity.
  \<^item> Record fields keep the source's names. Where two interfaces share a field name, or a name
    is taken by HOL, the field carries a prefix: \<^verbatim>\<open>row_\<close> for \<^verbatim>\<open>ArtifactRow\<close>,
    \<^verbatim>\<open>in_\<close> for \<^verbatim>\<open>CreateArtifactInput\<close>, \<^verbatim>\<open>p_\<close> for \<^verbatim>\<open>Partial<Artifact>\<close>,
    \<^verbatim>\<open>upd_\<close> for the \<^verbatim>\<open>updates\<close> object, and \<^verbatim>\<open>artifact_id\<close>, \<^verbatim>\<open>artifact_type\<close> for
    \<^verbatim>\<open>Artifact.id\<close>, \<^verbatim>\<open>Artifact.type\<close>.
  \<^item> What the environment supplies is a parameter: the failure of a round trip to the hosted
    store (\<open>fault\<close>), \<^verbatim>\<open>uuidv4()\<close> (\<open>uuid\<close>), \<^verbatim>\<open>new Date().toISOString()\<close> (\<open>nowISO\<close>),
    the collation behind \<^verbatim>\<open>String.prototype.localeCompare\<close>, and the language model's reply.
\<close>

subsection \<open>Domain types (\<^verbatim>\<open>src/types/artifact.ts\<close>)\<close>

datatype ArtifactType = Idea | Article | Question | Screenshot | Note

datatype ArtifactStatus = Pending | Processing | Ready | Playing | Completed

record Artifact =
  artifact_id :: string
  userId :: string
  artifact_type :: ArtifactType
  title :: string
  rawContent :: string
  summary :: "string option"
  fullAudioText :: "string option"
  sourceUrl :: "string option"
  imageData :: "string option"
  status :: ArtifactStatus
  createdAt :: string
  playedAt :: "string option"
  completedAt :: "string option"
  tags :: "string list"
  dayBucket :: string

record CreateArtifactInput =
  in_type :: ArtifactType
  in_content :: string
  in_title :: "string option"
  in_sourceUrl :: "string option"
  in_imageData :: "string option"
  in_tags :: "string list option"

record Stats =
  total :: nat
  pending :: nat
  ready :: nat
  completed :: nat

record DayGroup =
  date :: string
  artifacts :: "Artifact list"
  stats :: Stats

text \<open>\<^verbatim>\<open>Partial<Artifact>\<close>: every field of \<^verbatim>\<open>Artifact\<close>, each optional.\<close>

record PartialArtifact =
  p_id :: "string option"
  p_userId :: "string option"
  p_type :: "ArtifactType option"
  p_title :: "string option"
  p_rawContent :: "string option"
  p_summary :: "string option"
  p_fullAudioText :: "string option"
  p_sourceUrl :: "string option"
  p_imageData :: "string option"
  p_status :: "ArtifactStatus option"
  p_createdAt :: "string option"
  p_playedAt :: "string option"
  p_completedAt :: "string option"
  p_tags :: "string list option"
  p_dayBucket :: "string option"

subsection \<open>JavaScript primitives used by the code\<close>

text \<open>Truthiness of a \<^verbatim>\<open>string | undefined\<close>: \<^verbatim>\<open>undefined\<close>, \<^verbatim>\<open>null\<close> and \<^verbatim>\<open>''\<close> are falsy.\<close>

fun truthy :: "string option \<Rightarrow> bool" where
  "truthy None = False"
| "truthy (Some s) = (s \<noteq> [])"

text \<open>\<^verbatim>\<open>x || d\<close> for a \<^verbatim>\<open>string | undefined\<close> \<open>x\<close> and a string \<open>d\<close>.\<close>

fun or_else :: "string option \<Rightarrow> string \<Rightarrow> string" where
  "or_else None d = d"
| "or_else (Some s) d = (if s = [] then d else s)"

definition startsWith :: "string \<Rightarrow> string \<Rightarrow> bool" where
  "startsWith s p = (take (length p) s = p)"

text \<open>\<^verbatim>\<open>s.split('T')[0]\<close>: the part of \<open>s\<close> before the first \<^verbatim>\<open>T\<close>, all of \<open>s\<close> when there is none.\<close>

definition split_T_0 :: "string \<Rightarrow> string" where
  "split_T_0 s = takeWhile (\<lambda>c. c \<noteq> CHR ''T'') s"

text \<open>
  \<^verbatim>\<open>Array.prototype.sort(cmp)\<close>: a stable sort; \<open>x\<close> stays before \<open>y\<close> unless
  \<^verbatim>\<open>cmp(x, y) > 0\<close>.
\<close>

fun insort_cmp :: "('a \<Rightarrow> 'a \<Rightarrow> int) \<Rightarrow> 'a \<Rightarrow> 'a list \<Rightarrow> 'a list" where
  "insort_cmp cmp x [] = [x]"
| "insort_cmp cmp x (y # ys) =
     (if cmp x y \<le> 0 then x # y # ys else y # insort_cmp cmp x ys)"

definition sort_cmp :: "('a \<Rightarrow> 'a \<Rightarrow> int) \<Rightarrow> 'a list \<Rightarrow> 'a list" where
  "sort_cmp cmp xs = foldr (insort_cmp cmp) xs []"

text \<open>The decimal numeral of a number, as a template literal prints \<^verbatim>\<open>${n}\<close>.\<close>

fun string_of_nat :: "nat \<Rightarrow> string" where
  "string_of_nat n =
     (if n < 10 then [char_of (48 + n)]
      else string_of_nat (n div 10) @ [char_of (48 + n mod 10)])"

text \<open>\<^verbatim>\<open>xs.join(sep)\<close>.\<close>

fun join :: "string \<Rightarrow> string list \<Rightarrow> string" where
  "join sep [] = []"
| "join sep [x] = x"
| "join sep (x # y # ys) = x @ sep @ join sep (y # ys)"

subsection \<open>The hosted store\<close>

text \<open>
  The table \<^verbatim>\<open>artifacts\<close> lives in a hosted Postgres database reached through the
  supabase-js client, both outside the repository. A table is the list of its rows. Every
  query is one round trip; \<open>fault\<close> is what that round trip fails with (network, auth,
  policy), \<^term>\<open>None\<close> when it goes through. A round trip that fails leaves the table as it
  was. The client does not throw: it resolves to \<^verbatim>\<open>{ data, error }\<close>.
\<close>

text \<open>
  A failure value: what a \<^verbatim>\<open>catch (error)\<close> clause receives. The handlers look at
  \<^verbatim>\<open>error instanceof Error\<close> and at \<^verbatim>\<open>error.message\<close> only.
\<close>

datatype Fault = Fault (instanceof_Error: bool) (message: string)

definition PGRST116 :: Fault where
  "PGRST116 = Fault False ''JSON object requested, multiple (or no) rows returned''"

record ArtifactRow =
  row_id :: string
  user_id :: string
  row_type :: ArtifactType
  row_title :: string
  raw_content :: string
  row_summary :: "string option"
  full_audio_text :: "string option"
  source_url :: "string option"
  image_data :: "string option"
  row_status :: ArtifactStatus
  created_at :: string
  played_at :: "string option"
  completed_at :: "string option"
  row_tags :: "string list"
  day_bucket :: string

type_synonym Table = "ArtifactRow list"

record 'a Response =
  data :: "'a option"
  error :: "Fault option"

text \<open>
  The \<^verbatim>\<open>updates\<close> object of \<^verbatim>\<open>updateArtifactStatus\<close>: \<^verbatim>\<open>status\<close> is always there, every other
  key only when the code assigned it.
\<close>

record Updates =
  upd_status :: ArtifactStatus
  upd_played_at :: "string option"
  upd_completed_at :: "string option"
  upd_summary :: "string option"
  upd_full_audio_text :: "string option"
  upd_title :: "string option"
  upd_tags :: "string list option"

text \<open>\<^verbatim>\<open>.order('created_at', { ascending: false })\<close>, on ISO-8601 UTC timestamps.\<close>

definition order_created_at_desc :: "ArtifactRow list \<Rightarrow> ArtifactRow list" where
  "order_created_at_desc rs = rev (sort_key created_at rs)"

text \<open>
  \<^verbatim>\<open>.select('*').eq(...).single()\<close>: the one matching row; error \<^verbatim>\<open>PGRST116\<close> when no row
  or more than one row matches.
\<close>

definition select_single :: "Table \<Rightarrow> Fault option \<Rightarrow> (ArtifactRow \<Rightarrow> bool) \<Rightarrow> ArtifactRow Response" where
  "select_single t fault P =
     (case fault of
        Some e \<Rightarrow> \<lparr>data = None, error = Some e\<rparr>
      | None \<Rightarrow>
          (case filter P t of
             [r] \<Rightarrow> \<lparr>data = Some r, error = None\<rparr>
           | _ \<Rightarrow> \<lparr>data = None, error = Some PGRST116\<rparr>))"

text \<open>\<^verbatim>\<open>.select('*').eq(...).order('created_at', { ascending: false })\<close>.\<close>

definition select_ordered :: "Table \<Rightarrow> Fault option \<Rightarrow> (ArtifactRow \<Rightarrow> bool) \<Rightarrow> ArtifactRow list Response" where
  "select_ordered t fault P =
     (case fault of
        Some e \<Rightarrow> \<lparr>data = None, error = Some e\<rparr>
      | None \<Rightarrow> \<lparr>data = Some (order_created_at_desc (filter P t)), error = None\<rparr>)"

text \<open>\<^verbatim>\<open>.upsert(row, { onConflict: 'id' })\<close>: replaces the row with that id, or adds the row.\<close>

definition upsert :: "Table \<Rightarrow> Fault option \<Rightarrow> ArtifactRow \<Rightarrow> unit Response \<times> Table" where
  "upsert t fault row =
     (case fault of
        Some e \<Rightarrow> (\<lparr>data = None, error = Some e\<rparr>, t)
      | None \<Rightarrow>
          (\<lparr>data = None, error = None\<rparr>,
           if row_id row \<in> set (map row_id t)
           then map (\<lambda>r. if row_id r = row_id row then row else r) t
           else t @ [row]))"

text \<open>What \<^verbatim>\<open>.update(updates)\<close> writes into one row: the keys present in \<open>updates\<close>.\<close>

definition apply_updates :: "Updates \<Rightarrow> ArtifactRow \<Rightarrow> ArtifactRow" where
  "apply_updates u r =
     r\<lparr> row_status := upd_status u,
        played_at := (case upd_played_at u of None \<Rightarrow> played_at r | Some v \<Rightarrow> Some v),
        completed_at := (case upd_completed_at u of None \<Rightarrow> completed_at r | Some v \<Rightarrow> Some v),
        row_summary := (case upd_summary u of None \<Rightarrow> row_summary r | Some v \<Rightarrow> Some v),
        full_audio_text := (case upd_full_audio_text u of None \<Rightarrow> full_audio_text r | Some v \<Rightarrow> Some v),
        row_title := (case upd_title u of None \<Rightarrow> row_title r | Some v \<Rightarrow> v),
        row_tags := (case upd_tags u of None \<Rightarrow> row_tags r | Some v \<Rightarrow> v) \<rparr>"

text \<open>
  \<^verbatim>\<open>.update(updates).eq('id', id).select().single()\<close>: writes the rows with that id and
  returns the written row; when not exactly one row matches, the request fails with
  \<^verbatim>\<open>PGRST116\<close> and nothing is written.
\<close>

definition update_single :: "Table \<Rightarrow> Fault option \<Rightarrow> string \<Rightarrow> Updates \<Rightarrow> ArtifactRow Response \<times> Table" where
  "update_single t fault i u =
     (case fault of
        Some e \<Rightarrow> (\<lparr>data = None, error = Some e\<rparr>, t)
      | None \<Rightarrow>
          (case filter (\<lambda>r. row_id r = i) t of
             [r] \<Rightarrow>
               (\<lparr>data = Some (apply_updates u r), error = None\<rparr>,
                map (\<lambda>r. if row_id r = i then apply_updates u r else r) t)
           | _ \<Rightarrow> (\<lparr>data = None, error = Some PGRST116\<rparr>, t)))"

text \<open>
  \<^verbatim>\<open>.delete().eq('id', id)\<close>: removes the rows with that id. A delete that matches no row is
  a successful request: the store answers without an error.
\<close>

definition delete_eq_id :: "Table \<Rightarrow> Fault option \<Rightarrow> string \<Rightarrow> unit Response \<times> Table" where
  "delete_eq_id t fault i =
     (case fault of
        Some e \<Rightarrow> (\<lparr>data = None, error = Some e\<rparr>, t)
      | None \<Rightarrow> (\<lparr>data = None, error = None\<rparr>, filter (\<lambda>r. row_id r \<noteq> i) t))"

subsection \<open>\<^verbatim>\<open>src/lib/store.ts\<close>\<close>

definition rowToArtifact :: "ArtifactRow \<Rightarrow> Artifact" where
  "rowToArtifact row =
     \<lparr> artifact_id = row_id row,
       userId = user_id row,
       artifact_type = row_type row,
       title = row_title row,
       rawContent = raw_content row,
       summary = row_summary row,
       fullAudioText = full_audio_text row,
       sourceUrl = source_url row,
       imageData = image_data row,
       status = row_status row,
       createdAt = created_at row,
       playedAt = played_at row,
       completedAt = completed_at row,
       tags = row_tags row,
       dayBucket = day_bucket row \<rparr>"

definition artifactToRow :: "Artifact \<Rightarrow> ArtifactRow" where
  "artifactToRow artifact =
     \<lparr> row_id = artifact_id artifact,
       user_id = userId artifact,
       row_type = artifact_type artifact,
       row_title = title artifact,
       raw_content = rawContent artifact,
       row_summary = summary artifact,
       full_audio_text = fullAudioText artifact,
       source_url = sourceUrl artifact,
       image_data = imageData artifact,
       row_status = status artifact,
       created_at = createdAt artifact,
       played_at = playedAt artifact,
       completed_at = completedAt artifact,
       row_tags = tags artifact,
       day_bucket = dayBucket artifact \<rparr>"

text \<open>\<^verbatim>\<open>if (error || !data) return null; return rowToArtifact(data)\<close>.\<close>

definition getArtifact :: "Table \<Rightarrow> Fault option \<Rightarrow> string \<Rightarrow> Artifact option" where
  "getArtifact t fault i =
     (let r = select_single t fault (\<lambda>row. row_id row = i)
      in case (error r, data r) of
           (None, Some row) \<Rightarrow> Some (rowToArtifact row)
         | _ \<Rightarrow> None)"

definition getAllArtifacts :: "Table \<Rightarrow> Fault option \<Rightarrow> string \<Rightarrow> Artifact list" where
  "getAllArtifacts t fault uid =
     (let r = select_ordered t fault (\<lambda>row. user_id row = uid)
      in case (error r, data r) of
           (None, Some rows) \<Rightarrow> map rowToArtifact rows
         | _ \<Rightarrow> [])"

definition getArtifactsByDay :: "Table \<Rightarrow> Fault option \<Rightarrow> string \<Rightarrow> string \<Rightarrow> Artifact list" where
  "getArtifactsByDay t fault uid d =
     (let r = select_ordered t fault (\<lambda>row. user_id row = uid \<and> day_bucket row = d)
      in case (error r, data r) of
           (None, Some rows) \<Rightarrow> map rowToArtifact rows
         | _ \<Rightarrow> [])"

definition getArtifactsByStatus :: "Table \<Rightarrow> Fault option \<Rightarrow> string \<Rightarrow> ArtifactStatus \<Rightarrow> Artifact list" where
  "getArtifactsByStatus t fault uid st =
     (let r = select_ordered t fault (\<lambda>row. user_id row = uid \<and> row_status row = st)
      in case (error r, data r) of
           (None, Some rows) \<Rightarrow> map rowToArtifact rows
         | _ \<Rightarrow> [])"

definition getPendingArtifacts :: "Table \<Rightarrow> Fault option \<Rightarrow> string \<Rightarrow> Artifact list" where
  "getPendingArtifacts t fault uid = getArtifactsByStatus t fault uid Ready"

text \<open>
  \<^verbatim>\<open>saveArtifact\<close> rethrows the store's error: \<^term>\<open>Inl e\<close> is the rejected promise, and the
  second component is the table afterwards.
\<close>

definition saveArtifact :: "Table \<Rightarrow> Fault option \<Rightarrow> Artifact \<Rightarrow> (Fault + unit) \<times> Table" where
  "saveArtifact t fault artifact =
     (let (r, t') = upsert t fault (artifactToRow artifact)
      in case error r of
           Some e \<Rightarrow> (Inl e, t')
         | None \<Rightarrow> (Inr (), t'))"

text \<open>
  The \<^verbatim>\<open>updates\<close> object that \<^verbatim>\<open>updateArtifactStatus\<close> builds from the artifact it read:
  the status, a stamp when the status is entered for the first time, and the four fields
  copied from \<^verbatim>\<open>additionalFields\<close> when they are not \<^verbatim>\<open>undefined\<close>. \<open>nowISO\<close> is
  \<^verbatim>\<open>new Date().toISOString()\<close>.
\<close>

definition status_updates ::
  "Artifact \<Rightarrow> string \<Rightarrow> ArtifactStatus \<Rightarrow> PartialArtifact option \<Rightarrow> Updates" where
  "status_updates current nowISO st additionalFields =
     \<lparr> upd_status = st,
       upd_played_at =
         (if st = Playing \<and> \<not> truthy (playedAt current) then Some nowISO else None),
       upd_completed_at =
         (if st = Completed \<and> \<not> truthy (completedAt current) then Some nowISO else None),
       upd_summary = (case additionalFields of None \<Rightarrow> None | Some af \<Rightarrow> p_summary af),
       upd_full_audio_text =
         (case additionalFields of None \<Rightarrow> None | Some af \<Rightarrow> p_fullAudioText af),
       upd_title = (case additionalFields of None \<Rightarrow> None | Some af \<Rightarrow> p_title af),
       upd_tags = (case additionalFields of None \<Rightarrow> None | Some af \<Rightarrow> p_tags af) \<rparr>"

text \<open>
  \<^verbatim>\<open>updateArtifactStatus\<close> makes two round trips, the read (\<open>fault1\<close>) and the write
  (\<open>fault2\<close>). The second component is the table afterwards.
\<close>

definition updateArtifactStatus ::
  "Table \<Rightarrow> Fault option \<Rightarrow> Fault option \<Rightarrow> string \<Rightarrow> string \<Rightarrow> ArtifactStatus \<Rightarrow>
   PartialArtifact option \<Rightarrow> Artifact option \<times> Table" where
  "updateArtifactStatus t fault1 fault2 nowISO i st additionalFields =
     (case getArtifact t fault1 i of
        None \<Rightarrow> (None, t)
      | Some current \<Rightarrow>
          (let updates = status_updates current nowISO st additionalFields;
               (r, t') = update_single t fault2 i updates
           in case (error r, data r) of
                (None, Some row) \<Rightarrow> (Some (rowToArtifact row), t')
              | _ \<Rightarrow> (None, t')))"

definition deleteArtifact :: "Table \<Rightarrow> Fault option \<Rightarrow> string \<Rightarrow> bool \<times> Table" where
  "deleteArtifact t fault i =
     (let (r, t') = delete_eq_id t fault i in (error r = None, t'))"

text \<open>
  The \<^verbatim>\<open>Map<string, Artifact[]>\<close> of \<^verbatim>\<open>getDayGroups\<close> keeps its keys in insertion order:
  an association list. One iteration of the first loop:
\<close>

fun groups_add :: "Artifact \<Rightarrow> (string \<times> Artifact list) list \<Rightarrow> (string \<times> Artifact list) list" where
  "groups_add a [] = [(dayBucket a, [a])]"
| "groups_add a ((d, existing) # gs) =
     (if d = dayBucket a then (d, existing @ [a]) # gs else (d, existing) # groups_add a gs)"

definition mkDayGroup :: "string \<times> Artifact list \<Rightarrow> DayGroup" where
  "mkDayGroup g =
     (case g of (d, arts) \<Rightarrow>
        \<lparr> date = d,
          artifacts = arts,
          stats =
            \<lparr> total = length arts,
              pending = length (filter (\<lambda>a. status a = Pending \<or> status a = Processing) arts),
              ready = length (filter (\<lambda>a. status a = Ready) arts),
              completed = length (filter (\<lambda>a. status a = Completed) arts) \<rparr> \<rparr>)"

text \<open>
  \<open>localeCompare\<close> is \<^verbatim>\<open>String.prototype.localeCompare\<close>, whose result depends on the host's
  collation.
\<close>

definition getDayGroups ::
  "(string \<Rightarrow> string \<Rightarrow> int) \<Rightarrow> Table \<Rightarrow> Fault option \<Rightarrow> string \<Rightarrow> DayGroup list" where
  "getDayGroups localeCompare t fault uid =
     (let userArtifacts = getAllArtifacts t fault uid;
          groups = foldl (\<lambda>gs a. groups_add a gs) [] userArtifacts;
          dayGroups = map mkDayGroup groups
      in sort_cmp (\<lambda>a b. localeCompare (date b) (date a)) dayGroups)"

subsection \<open>\<^verbatim>\<open>/api/artifacts\<close>: creating an artifact\<close>

definition DEMO_USER_ID :: string where
  "DEMO_USER_ID = ''demo-user''"

text \<open>
  \<^verbatim>\<open>NextResponse.json(body, { status })\<close>: a JSON body with its HTTP status, or the error
  shape \<^verbatim>\<open>{ error, details? }\<close>.
\<close>

datatype 'a HttpResponse = Json nat 'a | ErrorJson nat string "string option"

text \<open>The object literal \<^verbatim>\<open>artifact\<close> built by \<^verbatim>\<open>POST\<close>.\<close>

definition POST_artifact :: "string \<Rightarrow> string \<Rightarrow> CreateArtifactInput \<Rightarrow> Artifact" where
  "POST_artifact uuid nowISO body =
     (let content = in_content body;
          dayBucket' = split_T_0 nowISO;
          title' = take 100 content @ (if length content > 100 then ''...'' else [])
      in \<lparr> artifact_id = uuid,
           userId = DEMO_USER_ID,
           artifact_type =
             (if truthy (in_imageData body) then Screenshot
              else if truthy (in_sourceUrl body) then Article
              else in_type body),
           title = title',
           rawContent = content,
           summary = None,
           fullAudioText = None,
           sourceUrl = in_sourceUrl body,
           imageData = in_imageData body,
           status = Pending,
           createdAt = nowISO,
           playedAt = None,
           completedAt = None,
           tags = (case in_tags body of None \<Rightarrow> [] | Some ts \<Rightarrow> ts),
           dayBucket = dayBucket' \<rparr>)"

text \<open>
  \<^verbatim>\<open>POST\<close>: the \<^verbatim>\<open>try\<close> block saves and answers with the artifact; the \<^verbatim>\<open>catch\<close> block
  answers 500.
\<close>

definition POST_artifacts ::
  "Table \<Rightarrow> Fault option \<Rightarrow> string \<Rightarrow> string \<Rightarrow> CreateArtifactInput \<Rightarrow>
   Artifact HttpResponse \<times> Table" where
  "POST_artifacts t fault uuid nowISO body =
     (let artifact = POST_artifact uuid nowISO body;
          (r, t') = saveArtifact t fault artifact
      in case r of
           Inr _ \<Rightarrow> (Json 200 artifact, t')
         | Inl e \<Rightarrow>
             (ErrorJson 500 ''Failed to create artifact''
                (Some (if instanceof_Error e then message e else ''Unknown error'')), t'))"

subsection \<open>\<^verbatim>\<open>/api/artifacts/[id]\<close>: deleting an artifact\<close>

text \<open>\<^verbatim>\<open>DELETE\<close> answers \<^verbatim>\<open>{ success: true }\<close>, or 404 when \<^verbatim>\<open>deleteArtifact\<close> returned false.\<close>

definition DELETE_artifact :: "Table \<Rightarrow> Fault option \<Rightarrow> string \<Rightarrow> bool HttpResponse \<times> Table" where
  "DELETE_artifact t fault i =
     (let (deleted, t') = deleteArtifact t fault i
      in if \<not> deleted then (ErrorJson 404 ''Artifact not found'' None, t')
         else (Json 200 True, t'))"

subsection \<open>The tool-call facade: \<^verbatim>\<open>handleToolCall\<close>\<close>

record EpisodeInfo =
  ep_id :: string
  ep_position :: nat
  ep_type :: ArtifactType
  ep_title :: string
  ep_summary :: "string option"
  ep_rawContent :: "string option"

text \<open>The shapes of \<^verbatim>\<open>structuredContent\<close>, one per \<^verbatim>\<open>return\<close> of \<^verbatim>\<open>handleToolCall\<close>.\<close>

datatype StructuredContent =
    ShowDrivetime nat string
  | EpisodeList nat "EpisodeInfo list"
  | EpisodeContent string ArtifactType string string
  | EpisodeCompleted bool nat
  | QueueAdded bool string string ArtifactType
  | ErrorContent string

datatype Meta =
    EpisodesMeta "EpisodeInfo list"
  | EpisodeMeta string ArtifactType "string option" string

record ToolResponse =
  structuredContent :: StructuredContent
  content :: "(string \<times> string) list"
  meta :: "Meta option"

text \<open>
  The arguments of a tool call, after the casts of the code (\<^verbatim>\<open>args.episode_id as string\<close>,
  \<^verbatim>\<open>args.type as string\<close>, \<^verbatim>\<open>args.content as string\<close>); \<^verbatim>\<open>status\<close> and \<^verbatim>\<open>mode\<close> have
  defaults in the code and may be absent.
\<close>

record ToolArgs =
  arg_status :: "string option"
  arg_episode_id :: string
  arg_mode :: "string option"
  arg_type :: ArtifactType
  arg_content :: string

text \<open>
  What one request gets from outside: the fault of its \<open>k\<close>-th round trip to the store,
  \<^verbatim>\<open>uuidv4()\<close>, \<^verbatim>\<open>new Date().toISOString()\<close>, and the chat completion's
  \<^verbatim>\<open>choices[0]?.message?.content\<close> (\<^term>\<open>Inl e\<close> when the call rejects).
\<close>

record Env =
  faults :: "nat \<Rightarrow> Fault option"
  uuidv4 :: string
  now_toISOString :: string
  completion :: "Fault + string option"

definition toUpperCase_type :: "ArtifactType \<Rightarrow> string" where
  "toUpperCase_type ty =
     (case ty of Idea \<Rightarrow> ''IDEA'' | Article \<Rightarrow> ''ARTICLE'' | Question \<Rightarrow> ''QUESTION''
      | Screenshot \<Rightarrow> ''SCREENSHOT'' | Note \<Rightarrow> ''NOTE'')"

text \<open>\<^verbatim>\<open>expandForAudio\<close> (\<^verbatim>\<open>src/lib/openai.ts\<close>): the model's reply, or the content itself.\<close>

definition expandForAudio :: "Fault + string option \<Rightarrow> string \<Rightarrow> Fault + string" where
  "expandForAudio reply content' =
     (case reply of Inl e \<Rightarrow> Inl e | Inr c \<Rightarrow> Inr (or_else c content'))"

text \<open>\<^verbatim>\<open>artifacts.map((a, i) => ...)\<close>: each element with its index.\<close>

definition indexed :: "'a list \<Rightarrow> (nat \<times> 'a) list" where
  "indexed xs = zip [0..<length xs] xs"

definition plural :: "nat \<Rightarrow> string" where
  "plural n = (if n > 1 then ''s'' else [])"

text \<open>The object literal \<^verbatim>\<open>artifact\<close> built by the \<^verbatim>\<open>add_to_queue\<close> case.\<close>

definition add_to_queue_artifact :: "string \<Rightarrow> string \<Rightarrow> ArtifactType \<Rightarrow> string \<Rightarrow> Artifact" where
  "add_to_queue_artifact uuid' nowISO' ty content' =
     (let isUrl = startsWith content' ''http://'' \<or> startsWith content' ''https://'';
          title' = take 100 content' @ (if length content' > 100 then ''...'' else [])
      in \<lparr> artifact_id = uuid',
           userId = DEMO_USER_ID,
           artifact_type = (if isUrl then Article else ty),
           title = title',
           rawContent = content',
           summary = None,
           fullAudioText = None,
           sourceUrl = (if isUrl then Some content' else None),
           imageData = None,
           status = Pending,
           createdAt = nowISO',
           playedAt = None,
           completedAt = None,
           tags = [],
           dayBucket = split_T_0 nowISO' \<rparr>)"

definition episode_not_found :: ToolResponse where
  "episode_not_found =
     \<lparr> structuredContent = ErrorContent ''Episode not found'',
       content = [(''text'', ''Episode not found.'')],
       meta = None \<rparr>"

text \<open>
  \<^verbatim>\<open>handleToolCall(name, args, baseUrl)\<close>; \<^verbatim>\<open>baseUrl\<close> is not used by any case.
  \<^term>\<open>Inl e\<close> is the rejected promise; the second component is the table afterwards.
\<close>

definition handleToolCall ::
  "string \<Rightarrow> ToolArgs \<Rightarrow> Table \<Rightarrow> Env \<Rightarrow> (Fault + ToolResponse) \<times> Table" where
  "handleToolCall name args t env =
     (if name = ''show_drivetime'' then
        (let arts = getPendingArtifacts t (faults env 0) DEMO_USER_ID;
             n = length arts
         in (Inr \<lparr> structuredContent =
                     ShowDrivetime n
                       (if n > 0
                        then ''You have '' @ string_of_nat n @ '' episode'' @ plural n @ '' ready.''
                        else ''Your queue is empty. Add some ideas!''),
                   content =
                     [(''text'',
                       if n > 0
                       then ''DriveTime is ready with '' @ string_of_nat n @ '' episode'' @ plural n
                            @ '' in your queue.''
                       else ''DriveTime is ready. Your queue is empty - add some ideas, questions, or notes!'')],
                   meta =
                     Some (EpisodesMeta
                       (map (\<lambda>(i, a).
                               \<lparr> ep_id = artifact_id a, ep_position = i + 1,
                                 ep_type = artifact_type a, ep_title = title a,
                                 ep_summary = summary a, ep_rawContent = None \<rparr>)
                            (indexed arts))) \<rparr>, t))
      else if name = ''get_todays_episodes'' then
        (let status' = or_else (arg_status args) ''pending'';
             arts =
               (if status' = ''pending'' then getPendingArtifacts t (faults env 0) DEMO_USER_ID
                else (let all = getAllArtifacts t (faults env 0) DEMO_USER_ID
                      in if status' = ''completed''
                         then filter (\<lambda>a. status a = Completed) all else all));
             n = length arts;
             episodeList =
               join [CHR 0x0A]
                 (map (\<lambda>(i, a). string_of_nat (i + 1) @ ''. ['' @ toUpperCase_type (artifact_type a)
                                   @ ''] '' @ title a)
                      (indexed arts))
         in (Inr \<lparr> structuredContent =
                     EpisodeList n
                       (map (\<lambda>(i, a).
                               \<lparr> ep_id = artifact_id a, ep_position = i + 1,
                                 ep_type = artifact_type a, ep_title = title a,
                                 ep_summary = None, ep_rawContent = None \<rparr>)
                            (indexed arts)),
                   content =
                     [(''text'',
                       if n > 0
                       then ''Here are your '' @ string_of_nat n @ '' episode'' @ plural n @ '':''
                            @ [CHR 0x0A, CHR 0x0A] @ episodeList @ [CHR 0x0A, CHR 0x0A]
                            @ ''Want me to read the first one?''
                       else ''No episodes in queue. Use show_drivetime to add some!'')],
                   meta =
                     Some (EpisodesMeta
                       (map (\<lambda>(i, a).
                               \<lparr> ep_id = artifact_id a, ep_position = i + 1,
                                 ep_type = artifact_type a, ep_title = title a,
                                 ep_summary = summary a, ep_rawContent = Some (rawContent a) \<rparr>)
                            (indexed arts))) \<rparr>, t))
      else if name = ''get_episode_content'' then
        (let episodeId = arg_episode_id args;
             mode = or_else (arg_mode args) ''summary''
         in case getArtifact t (faults env 0) episodeId of
              None \<Rightarrow> (Inr episode_not_found, t)
            | Some artifact \<Rightarrow>
                (let (updated, t') =
                       updateArtifactStatus t (faults env 1) (faults env 2) (now_toISOString env)
                         episodeId Playing None;
                     contentText0 =
                       (if mode = ''full''
                        then or_else (fullAudioText artifact) (rawContent artifact)
                        else or_else (summary artifact) (rawContent artifact));
                     contentText =
                       (if mode = ''full'' \<and> \<not> truthy (fullAudioText artifact)
                        then expandForAudio (completion env) (rawContent artifact)
                        else Inr contentText0)
                 in case contentText of
                      Inl e \<Rightarrow> (Inl e, t')
                    | Inr txt \<Rightarrow>
                        (Inr \<lparr> structuredContent =
                                 EpisodeContent (artifact_id artifact) (artifact_type artifact)
                                   (title artifact) mode,
                               content =
                                 [(''text'',
                                   ''**'' @ toUpperCase_type (artifact_type artifact) @ '': ''
                                   @ title artifact @ ''**'' @ [CHR 0x0A, CHR 0x0A] @ txt
                                   @ [CHR 0x0A, CHR 0x0A] @ ''---'' @ [CHR 0x0A] @ ''*Say ''
                                   @ [CHR 0x22] @ ''next'' @ [CHR 0x22] @ '' to continue, ''
                                   @ [CHR 0x22] @ ''more detail'' @ [CHR 0x22]
                                   @ '' for full version, or ask me anything about this.*'')],
                               meta =
                                 Some (EpisodeMeta (artifact_id artifact) (artifact_type artifact)
                                         (sourceUrl artifact) (rawContent artifact)) \<rparr>, t')))
      else if name = ''mark_episode_complete'' then
        (let episodeId = arg_episode_id args;
             (updated, t') =
               updateArtifactStatus t (faults env 0) (faults env 1) (now_toISOString env)
                 episodeId Completed None
         in case updated of
              None \<Rightarrow> (Inr episode_not_found, t')
            | Some _ \<Rightarrow>
                (let remaining = getPendingArtifacts t' (faults env 2) DEMO_USER_ID;
                     n = length remaining
                 in (Inr \<lparr> structuredContent = EpisodeCompleted True n,
                           content =
                             [(''text'',
                               if n > 0
                               then ''Done! '' @ string_of_nat n @ '' more episode'' @ plural n
                                    @ '' to go.''
                               else ''All done! Your queue is clear.'')],
                           meta = None \<rparr>, t')))
      else if name = ''add_to_queue'' then
        (let artifact =
               add_to_queue_artifact (uuidv4 env) (now_toISOString env) (arg_type args) (arg_content args);
             (r, t') = saveArtifact t (faults env 0) artifact
         in case r of
              Inl e \<Rightarrow> (Inl e, t')
            | Inr _ \<Rightarrow>
                (Inr \<lparr> structuredContent =
                         QueueAdded True (artifact_id artifact) (title artifact)
                           (artifact_type artifact),
                       content =
                         [(''text'',
                           ''Saved '' @ [CHR 0x22] @ title artifact @ [CHR 0x22] @ '' for later.'')],
                       meta = None \<rparr>, t'))
      else
        (Inr \<lparr> structuredContent = ErrorContent (''Unknown tool: '' @ name),
               content = [(''text'', ''Unknown tool: '' @ name)],
               meta = None \<rparr>, t))"

text \<open>
  The \<^verbatim>\<open>tools/call\<close> branch of the MCP route's \<^verbatim>\<open>POST\<close>: the result goes into the
  JSON-RPC envelope; whatever the \<^verbatim>\<open>try\<close> block throws becomes the envelope
  \<^verbatim>\<open>{ id: null, error: { code: -32603, message: 'Internal error' } }\<close>.
\<close>

datatype JsonRpcResponse =
    RpcResult string ToolResponse
  | RpcError "string option" int string

definition POST_tools_call ::
  "string \<Rightarrow> string \<Rightarrow> ToolArgs \<Rightarrow> Table \<Rightarrow> Env \<Rightarrow> JsonRpcResponse \<times> Table" where
  "POST_tools_call rid name args t env =
     (case handleToolCall name args t env of
        (Inr result, t') \<Rightarrow> (RpcResult rid result, t')
      | (Inl e, t') \<Rightarrow> (RpcError None (- 32603) ''Internal error'', t'))"

subsection \<open>Example data\<close>

text \<open>Concrete inputs on which the theorems below are instantiated.\<close>

definition example_row :: ArtifactRow where
  "example_row =
     \<lparr> row_id = ''a1'', user_id = ''demo-user'', row_type = Idea, row_title = ''Buy milk'',
       raw_content = ''Buy milk'', row_summary = None, full_audio_text = None, source_url = None,
       image_data = None, row_status = Ready, created_at = ''2024-01-01T10:00:00.000Z'',
       played_at = None, completed_at = None, row_tags = [], day_bucket = ''2024-01-01'' \<rparr>"

definition example_args :: ToolArgs where
  "example_args =
     \<lparr> arg_status = None, arg_episode_id = ''missing-id'', arg_mode = None, arg_type = Note,
       arg_content = ''https://example.com/x'' \<rparr>"

definition example_env :: Env where
  "example_env =
     \<lparr> faults = (\<lambda>k. None), uuidv4 = ''a9'', now_toISOString = ''2024-01-02T08:30:00.000Z'',
       completion = Inr None \<rparr>"

definition example_failing_env :: Env where
  "example_failing_env = example_env\<lparr> faults := (\<lambda>k. Some (Fault True ''fetch failed'')) \<rparr>"

definition example_input :: CreateArtifactInput where
  "example_input =
     \<lparr> in_type = Idea, in_content = ''Buy milk'', in_title = None, in_sourceUrl = None,
       in_imageData = None, in_tags = None \<rparr>"

definition example_url_input :: CreateArtifactInput where
  "example_url_input =
     \<lparr> in_type = Note, in_content = ''https://example.com/x'', in_title = None,
       in_sourceUrl = None, in_imageData = None, in_tags = None \<rparr>"

definition example_screenshot_input :: CreateArtifactInput where
  "example_screenshot_input =
     \<lparr> in_type = Note, in_content = ''Receipt'', in_title = None,
       in_sourceUrl = Some ''https://example.com/x'', in_imageData = Some ''iVBORw0KGgo='',
       in_tags = None \<rparr>"

definition example_played_row :: ArtifactRow where
  "example_played_row =
     example_row\<lparr> row_status := Playing, played_at := Some ''2024-01-02T08:30:00.000Z'' \<rparr>"

definition example_completed_row :: ArtifactRow where
  "example_completed_row =
     example_row\<lparr> row_status := Completed, completed_at := Some ''2024-01-02T08:30:00.000Z'' \<rparr>"

definition example_patch :: PartialArtifact where
  "example_patch =
     \<lparr> p_id = Some ''zz'', p_userId = None, p_type = None, p_title = Some ''Milk'',
       p_rawContent = Some ''overwritten?'', p_summary = None, p_fullAudioText = None,
       p_sourceUrl = None, p_imageData = None, p_status = None, p_createdAt = None,
       p_playedAt = None, p_completedAt = None, p_tags = None, p_dayBucket = Some ''1999-01-01'' \<rparr>"

definition example_patched_row :: ArtifactRow where
  "example_patched_row = example_row\<lparr> row_status := Processing, row_title := ''Milk'' \<rparr>"

definition example_row2 :: ArtifactRow where
  "example_row2 =
     example_row\<lparr> row_id := ''a2'', row_status := Processing,
       created_at := ''2024-01-02T09:00:00.000Z'', day_bucket := ''2024-01-02'' \<rparr>"

definition example_row3 :: ArtifactRow where
  "example_row3 =
     example_row\<lparr> row_id := ''a3'', row_status := Playing,
       created_at := ''2024-01-01T12:00:00.000Z'', played_at := Some ''2024-01-01T13:00:00.000Z'' \<rparr>"

text \<open>A collation that compares code unit by code unit.\<close>

definition codeunit_compare :: "string \<Rightarrow> string \<Rightarrow> int" where
  "codeunit_compare a b = (if a < b then - 1 else if a = b then 0 else 1)"

section \<open>Properties\<close>

subsection \<open>Facts about the store operations\<close>

lemma getArtifact_fault: "getArtifact t (Some e) i = None"
  by (simp add: getArtifact_def select_single_def)

lemma getArtifact_Some_iff:
  "getArtifact t fault i = Some a \<longleftrightarrow>
     fault = None \<and> (\<exists>r. filter (\<lambda>row. row_id row = i) t = [r] \<and> a = rowToArtifact r)"
  by (auto simp: getArtifact_def select_single_def split: option.splits list.splits)

lemma getArtifact_absent:
  "i \<notin> set (map row_id t) \<Longrightarrow> getArtifact t fault i = None"
proof -
  assume "i \<notin> set (map row_id t)"
  then have "filter (\<lambda>row. row_id row = i) t = []"
    by (auto simp: filter_empty_conv)
  then show ?thesis
    by (simp add: getArtifact_def select_single_def split: option.splits)
qed

lemma row_id_apply_updates: "row_id (apply_updates u r) = row_id r"
  by (simp add: apply_updates_def)

lemma filter_id_map_update:
  "filter (\<lambda>row. row_id row = i) (map (\<lambda>r. if row_id r = i then apply_updates u r else r) t)
     = map (apply_updates u) (filter (\<lambda>row. row_id row = i) t)"
  by (induction t) (auto simp: row_id_apply_updates)

lemma filter_other_map_update:
  "filter (\<lambda>row. row_id row \<noteq> i) (map (\<lambda>r. if row_id r = i then apply_updates u r else r) t)
     = filter (\<lambda>row. row_id row \<noteq> i) t"
  by (induction t) (auto simp: row_id_apply_updates)

lemma updateArtifactStatus_None:
  "updateArtifactStatus t fault1 fault2 nowISO i st patch = (None, t') \<Longrightarrow> t' = t"
  by (auto simp: updateArtifactStatus_def update_single_def getArtifact_Some_iff Let_def
           split: option.splits list.splits prod.splits if_splits)

lemma updateArtifactStatus_Some:
  assumes "updateArtifactStatus t fault1 fault2 nowISO i st patch = (Some updated, t')"
  shows "\<exists>r. fault1 = None \<and> fault2 = None \<and> filter (\<lambda>row. row_id row = i) t = [r]
           \<and> updated = rowToArtifact (apply_updates (status_updates (rowToArtifact r) nowISO st patch) r)
           \<and> t' = map (\<lambda>x. if row_id x = i
                             then apply_updates (status_updates (rowToArtifact r) nowISO st patch) x
                             else x) t"
  using assms
  by (auto simp: updateArtifactStatus_def update_single_def getArtifact_def select_single_def Let_def
           split: option.splits list.splits prod.splits if_splits)

lemma updateArtifactStatus_stored:
  assumes "updateArtifactStatus t fault1 fault2 nowISO i st patch = (Some updated, t')"
  shows "getArtifact t' None i = Some updated"
proof -
  from updateArtifactStatus_Some[OF assms] obtain r where
    r: "filter (\<lambda>row. row_id row = i) t = [r]"
    and u: "updated = rowToArtifact (apply_updates (status_updates (rowToArtifact r) nowISO st patch) r)"
    and t': "t' = map (\<lambda>x. if row_id x = i
                             then apply_updates (status_updates (rowToArtifact r) nowISO st patch) x
                             else x) t"
    by blast
  show ?thesis
    unfolding getArtifact_Some_iff t' filter_id_map_update r u by simp
qed

lemma rowToArtifact_artifactToRow: "rowToArtifact (artifactToRow a) = a"
  by (simp add: rowToArtifact_def artifactToRow_def)

lemma filter_absent_id:
  "i \<notin> set (map row_id t) \<Longrightarrow> filter (\<lambda>row. row_id row = i) t = []"
  by (auto simp: filter_empty_conv)

lemma getArtifact_after_insert:
  assumes "artifact_id a \<notin> set (map row_id t)"
  shows "getArtifact (snd (saveArtifact t None a)) None (artifact_id a) = Some a"
proof -
  from assms have "filter (\<lambda>row. row_id row = artifact_id a) t = []"
    by (rule filter_absent_id)
  moreover have "row_id (artifactToRow a) = artifact_id a"
    by (simp add: artifactToRow_def)
  ultimately show ?thesis
    using assms
    by (simp add: getArtifact_Some_iff saveArtifact_def upsert_def rowToArtifact_artifactToRow)
qed

subsection \<open>Facts about sorting with a comparator\<close>

lemma set_insort_cmp: "set (insort_cmp c x ys) = insert x (set ys)"
  by (induction ys) auto

lemma set_sort_cmp: "set (sort_cmp c xs) = set xs"
  unfolding sort_cmp_def by (induction xs) (auto simp: set_insort_cmp)

lemma length_insort_cmp: "length (insort_cmp c x ys) = Suc (length ys)"
  by (induction ys) auto

lemma length_sort_cmp: "length (sort_cmp c xs) = length xs"
  unfolding sort_cmp_def by (induction xs) (auto simp: length_insort_cmp)

lemma sorted_insort_cmp:
  fixes key :: "'a \<Rightarrow> 'b::linorder"
  assumes "\<forall>y\<in>set ys. (c x y \<le> 0) = (key y \<le> key x)"
    and "sorted_wrt (\<lambda>g h. key h \<le> key g) ys"
  shows "sorted_wrt (\<lambda>g h. key h \<le> key g) (insort_cmp c x ys)"
  using assms
proof (induction ys)
  case Nil
  then show ?case by simp
next
  case (Cons y ys)
  show ?case
  proof (cases "c x y \<le> 0")
    case True
    with Cons.prems have "key y \<le> key x" by simp
    moreover from Cons.prems have "\<forall>z\<in>set ys. key z \<le> key y" by simp
    ultimately have "\<forall>z\<in>set (y # ys). key z \<le> key x" by auto
    with True Cons.prems show ?thesis by simp
  next
    case False
    with Cons.prems have "key x \<le> key y" by auto
    with False Cons show ?thesis by (auto simp: set_insort_cmp)
  qed
qed

lemma sorted_sort_cmp:
  fixes key :: "'a \<Rightarrow> 'b::linorder"
  assumes "\<forall>x\<in>set xs. \<forall>y\<in>set xs. (c x y \<le> 0) = (key y \<le> key x)"
  shows "sorted_wrt (\<lambda>g h. key h \<le> key g) (sort_cmp c xs)"
  using assms unfolding sort_cmp_def
proof (induction xs)
  case Nil
  then show ?case by simp
next
  case (Cons x xs)
  have "set (foldr (insort_cmp c) xs []) = set xs"
    using set_sort_cmp[of c xs] by (simp add: sort_cmp_def)
  with Cons show ?case
    by (auto intro!: sorted_insort_cmp)
qed

subsection \<open>Facts about the day buckets\<close>

lemma map_of_groups_add:
  "map_of (groups_add a gs) =
     (map_of gs)(dayBucket a \<mapsto> (case map_of gs (dayBucket a) of None \<Rightarrow> [a] | Some ex \<Rightarrow> ex @ [a]))"
  by (induction a gs rule: groups_add.induct) (auto simp: fun_eq_iff)

lemma keys_groups_add:
  "map fst (groups_add a gs) =
     (if dayBucket a \<in> set (map fst gs) then map fst gs else map fst gs @ [dayBucket a])"
  by (induction a gs rule: groups_add.induct) auto

lemma distinct_groups_add: "distinct (map fst gs) \<Longrightarrow> distinct (map fst (groups_add a gs))"
  by (simp add: keys_groups_add)

lemma groups_foldl:
  "distinct (map fst (foldl (\<lambda>gs a. groups_add a gs) [] xs)) \<and>
   (\<forall>d. map_of (foldl (\<lambda>gs a. groups_add a gs) [] xs) d =
     (if d \<in> dayBucket ` set xs then Some (filter (\<lambda>a. dayBucket a = d) xs) else None))"
proof (induction xs rule: rev_induct)
  case Nil
  then show ?case by simp
next
  case (snoc a xs)
  have empty: "filter (\<lambda>b. dayBucket b = dayBucket a) xs = []" if "dayBucket a \<notin> dayBucket ` set xs"
  proof -
    from that have "\<forall>b\<in>set xs. dayBucket b \<noteq> dayBucket a"
      by (metis imageI)
    then show ?thesis
      by (simp add: filter_empty_conv)
  qed
  from snoc show ?case
    by (auto simp: distinct_groups_add map_of_groups_add empty)
qed

lemma groups_member:
  "(d, arts) \<in> set (foldl (\<lambda>gs a. groups_add a gs) [] xs) \<longleftrightarrow>
     d \<in> dayBucket ` set xs \<and> arts = filter (\<lambda>a. dayBucket a = d) xs"
proof -
  let ?gs = "foldl (\<lambda>gs a. groups_add a gs) [] xs"
  have dist: "distinct (map fst ?gs)"
    and look: "map_of ?gs d =
      (if d \<in> dayBucket ` set xs then Some (filter (\<lambda>a. dayBucket a = d) xs) else None)"
    using groups_foldl[of xs] by simp_all
  have "(d, arts) \<in> set ?gs \<longleftrightarrow> map_of ?gs d = Some arts"
    using dist by (simp add: map_of_eq_Some_iff)
  also have "\<dots> \<longleftrightarrow> d \<in> dayBucket ` set xs \<and> arts = filter (\<lambda>a. dayBucket a = d) xs"
    unfolding look by auto
  finally show ?thesis .
qed

lemma length_by_status:
  "length (filter (\<lambda>a. status a = Pending \<or> status a = Processing) xs)
   + length (filter (\<lambda>a. status a = Ready) xs)
   + length (filter (\<lambda>a. status a = Completed) xs)
   + length (filter (\<lambda>a. status a = Playing) xs) = length xs"
proof (induction xs)
  case Nil
  then show ?case by simp
next
  case (Cons a xs)
  then show ?case by (cases "status a") auto
qed

subsection \<open>Claims about the store\<close>

text \<open>
  Claim C3. For every user, \<^verbatim>\<open>getPendingArtifacts(userId)\<close> returns what
  \<^verbatim>\<open>getArtifactsByStatus(userId, 'ready')\<close> returns, whatever the table holds and whether or
  not the round trip fails. It filters on \<^verbatim>\<open>ready\<close>, not on \<^verbatim>\<open>pending\<close>: on a table with
  one \<^verbatim>\<open>ready\<close> artifact the two filters give different results.
\<close>

theorem getPendingArtifacts_filters_ready:
  "getPendingArtifacts t fault uid = getArtifactsByStatus t fault uid Ready
   \<and> getPendingArtifacts [example_row] None ''demo-user''
       \<noteq> getArtifactsByStatus [example_row] None ''demo-user'' Pending"
  by (simp add: getPendingArtifacts_def getArtifactsByStatus_def select_ordered_def
        order_created_at_desc_def example_row_def)

text \<open>
  Claim C6. When the round trip to the store fails with \<open>e\<close>, the reads return an absent
  result (\<^verbatim>\<open>null\<close> for \<^verbatim>\<open>getArtifact\<close>, the empty sequence for the three listings)
  and do not throw, while \<^verbatim>\<open>saveArtifact\<close> throws \<open>e\<close> to its caller and leaves the table as
  it was.
\<close>

theorem store_errors_reads_absent_writes_thrown:
  "getArtifact t (Some e) i = None
   \<and> getAllArtifacts t (Some e) uid = []
   \<and> getArtifactsByDay t (Some e) uid d = []
   \<and> getArtifactsByStatus t (Some e) uid st = []
   \<and> saveArtifact t (Some e) a = (Inl e, t)"
  by (simp add: getArtifact_def select_single_def getAllArtifacts_def getArtifactsByDay_def
        getArtifactsByStatus_def select_ordered_def saveArtifact_def upsert_def)

text \<open>
  Claim C7 says that deleting an id that is not in the store returns failure (\<^verbatim>\<open>false\<close>,
  HTTP 404). \<^verbatim>\<open>deleteArtifact\<close> returns \<^verbatim>\<open>!error\<close> and never looks at whether a row was
  removed, and the store answers a delete that matches no row without an error. So at the id
  \<^verbatim>\<open>missing-id\<close>, on a table that holds only the artifact \<^verbatim>\<open>a1\<close>, \<^verbatim>\<open>deleteArtifact\<close> returns
  \<^verbatim>\<open>true\<close> and \<^verbatim>\<open>DELETE\<close> answers 200 with \<^verbatim>\<open>{ success: true }\<close>; the handler's
  \<^verbatim>\<open>Artifact not found\<close> branch is not taken, although \<^verbatim>\<open>getArtifact\<close> finds nothing under
  that id.
\<close>

theorem delete_missing_id_reports_success:
  "getArtifact [example_row] None ''missing-id'' = None
   \<and> deleteArtifact [example_row] None ''missing-id'' = (True, [example_row])
   \<and> DELETE_artifact [example_row] None ''missing-id'' = (Json 200 True, [example_row])"
  by (simp add: getArtifact_def select_single_def deleteArtifact_def DELETE_artifact_def
        delete_eq_id_def example_row_def)

subsection \<open>Claims about the tool-call facade\<close>

text \<open>
  Claim C9. A tool call returns a structured response and no thrown fault:
  \<^item> a name outside the catalogue of five tools gives a response whose \<^verbatim>\<open>structuredContent\<close>
    is \<^verbatim>\<open>{ error: 'Unknown tool: <name>' }\<close>, and the table is untouched;
  \<^item> \<^verbatim>\<open>get_episode_content\<close> and \<^verbatim>\<open>mark_episode_complete\<close> with an \<^verbatim>\<open>episode_id\<close> that no
    row of the table has give the response whose \<^verbatim>\<open>structuredContent\<close> is
    \<^verbatim>\<open>{ error: 'Episode not found' }\<close>, whatever faults the round trips meet;
  \<^item> for every call, the \<^verbatim>\<open>tools/call\<close> handler answers with a JSON-RPC envelope: the
    result of \<^verbatim>\<open>handleToolCall\<close> when it returns, the error object with code -32603 when it
    throws.
\<close>

theorem tool_call_errors_are_structured:
  "(name \<notin> {''show_drivetime'', ''get_todays_episodes'', ''get_episode_content'',
              ''mark_episode_complete'', ''add_to_queue''} \<longrightarrow>
      handleToolCall name args t env =
        (Inr \<lparr> structuredContent = ErrorContent (''Unknown tool: '' @ name),
               content = [(''text'', ''Unknown tool: '' @ name)],
               meta = None \<rparr>, t))
   \<and> (arg_episode_id args \<notin> set (map row_id t) \<longrightarrow>
        handleToolCall ''get_episode_content'' args t env = (Inr episode_not_found, t)
      \<and> handleToolCall ''mark_episode_complete'' args t env = (Inr episode_not_found, t))
   \<and> structuredContent episode_not_found = ErrorContent ''Episode not found''
   \<and> (case handleToolCall name args t env of
         (Inr r, t') \<Rightarrow> POST_tools_call rid name args t env = (RpcResult rid r, t')
       | (Inl e, t') \<Rightarrow>
           POST_tools_call rid name args t env = (RpcError None (- 32603) ''Internal error'', t'))"
proof -
  have unknown: "handleToolCall name args t env =
        (Inr \<lparr> structuredContent = ErrorContent (''Unknown tool: '' @ name),
               content = [(''text'', ''Unknown tool: '' @ name)],
               meta = None \<rparr>, t)"
    if "name \<notin> {''show_drivetime'', ''get_todays_episodes'', ''get_episode_content'',
              ''mark_episode_complete'', ''add_to_queue''}"
    using that by (simp add: handleToolCall_def)
  have missing: "handleToolCall ''get_episode_content'' args t env = (Inr episode_not_found, t)
      \<and> handleToolCall ''mark_episode_complete'' args t env = (Inr episode_not_found, t)"
    if "arg_episode_id args \<notin> set (map row_id t)"
  proof -
    have "getArtifact t f (arg_episode_id args) = None" for f
      using that by (rule getArtifact_absent)
    then show ?thesis
      by (simp add: handleToolCall_def updateArtifactStatus_def)
  qed
  have envelope: "(case handleToolCall name args t env of
         (Inr r, t') \<Rightarrow> POST_tools_call rid name args t env = (RpcResult rid r, t')
       | (Inl e, t') \<Rightarrow>
           POST_tools_call rid name args t env = (RpcError None (- 32603) ''Internal error'', t'))"
    by (simp add: POST_tools_call_def split: prod.splits sum.splits)
  show ?thesis
    using unknown missing envelope by (simp add: episode_not_found_def)
qed

theorem tool_call_errors_are_structured_witness:
  "fst (handleToolCall ''delete_everything'' example_args [example_row] example_env)
     = Inr \<lparr> structuredContent = ErrorContent ''Unknown tool: delete_everything'',
             content = [(''text'', ''Unknown tool: delete_everything'')], meta = None \<rparr>
   \<and> ''missing-id'' \<notin> set (map row_id [example_row])
   \<and> handleToolCall ''get_episode_content'' example_args [example_row] example_env
       = (Inr episode_not_found, [example_row])
   \<and> handleToolCall ''mark_episode_complete'' example_args [example_row] example_env
       = (Inr episode_not_found, [example_row])
   \<and> fst (POST_tools_call ''7'' ''get_episode_content'' example_args [example_row] example_env)
       = RpcResult ''7'' episode_not_found
   \<and> handleToolCall ''add_to_queue'' example_args [example_row] example_failing_env
       = (Inl (Fault True ''fetch failed''), [example_row])
   \<and> POST_tools_call ''8'' ''add_to_queue'' example_args [example_row] example_failing_env
       = (RpcError None (- 32603) ''Internal error'', [example_row])"
proof -
  have thrown: "handleToolCall ''add_to_queue'' example_args [example_row] example_failing_env
       = (Inl (Fault True ''fetch failed''), [example_row])"
    by (simp add: handleToolCall_def saveArtifact_def upsert_def example_failing_env_def
          example_env_def Let_def)
  have caught: "POST_tools_call ''8'' ''add_to_queue'' example_args [example_row] example_failing_env
       = (RpcError None (- 32603) ''Internal error'', [example_row])"
    using tool_call_errors_are_structured
            [of "''add_to_queue''" example_args "[example_row]" example_failing_env "''8''"]
    unfolding thrown by simp
  have rest: "fst (handleToolCall ''delete_everything'' example_args [example_row] example_env)
     = Inr \<lparr> structuredContent = ErrorContent ''Unknown tool: delete_everything'',
             content = [(''text'', ''Unknown tool: delete_everything'')], meta = None \<rparr>
   \<and> ''missing-id'' \<notin> set (map row_id [example_row])
   \<and> handleToolCall ''get_episode_content'' example_args [example_row] example_env
       = (Inr episode_not_found, [example_row])
   \<and> handleToolCall ''mark_episode_complete'' example_args [example_row] example_env
       = (Inr episode_not_found, [example_row])
   \<and> fst (POST_tools_call ''7'' ''get_episode_content'' example_args [example_row] example_env)
       = RpcResult ''7'' episode_not_found"
    using tool_call_errors_are_structured
          [of "''delete_everything''" example_args "[example_row]" example_env "''7''"]
        tool_call_errors_are_structured
          [of "''get_episode_content''" example_args "[example_row]" example_env "''7''"]
    by (simp add: example_args_def example_row_def)
  from rest thrown caught show ?thesis
    by (simp only: simp_thms)
qed

subsection \<open>Facts about the creation handlers\<close>

lemma split_T_0_date: "CHR ''T'' \<notin> set d \<Longrightarrow> split_T_0 (d @ CHR ''T'' # rest) = d"
  by (simp add: split_T_0_def takeWhile_append)

lemma POST_artifacts_ok:
  "fst (POST_artifacts t None uuid nowISO body) = Json 200 (POST_artifact uuid nowISO body)"
  by (simp add: POST_artifacts_def saveArtifact_def upsert_def Let_def)

lemma add_to_queue_ok:
  "fst (handleToolCall ''add_to_queue'' args t env) =
     (case faults env 0 of
        None \<Rightarrow>
          (let a = add_to_queue_artifact (uuidv4 env) (now_toISOString env) (arg_type args)
                     (arg_content args)
           in Inr \<lparr> structuredContent =
                       QueueAdded True (artifact_id a) (title a) (artifact_type a),
                     content =
                       [(''text'', ''Saved '' @ [CHR 0x22] @ title a @ [CHR 0x22] @ '' for later.'')],
                     meta = None \<rparr>)
      | Some e \<Rightarrow> Inl e)"
  by (simp add: handleToolCall_def saveArtifact_def upsert_def Let_def split: option.splits)

subsection \<open>Claims about creating an artifact\<close>

text \<open>
  Claim C1 says that every creation operation resolves the type in one way: image data gives
  \<^verbatim>\<open>screenshot\<close>, else URL-shaped content (or a supplied \<^verbatim>\<open>sourceUrl\<close>) gives \<^verbatim>\<open>article\<close> with
  \<^verbatim>\<open>sourceUrl\<close> equal to the URL, else the requested type. \<^verbatim>\<open>POST /api/artifacts\<close> does not
  look at the content: the request \<^verbatim>\<open>{ type: 'note', content: 'https://example.com/x' }\<close>
  has URL-shaped content and no image data, and the artifact it creates has type \<^verbatim>\<open>note\<close> and
  no \<^verbatim>\<open>sourceUrl\<close>.
\<close>

theorem creation_type_counterexample:
  "startsWith (in_content example_url_input) ''https://''
   \<and> \<not> truthy (in_imageData example_url_input)
   \<and> fst (POST_artifacts [] None ''a9'' ''2024-01-02T08:30:00.000Z'' example_url_input)
       = Json 200 (POST_artifact ''a9'' ''2024-01-02T08:30:00.000Z'' example_url_input)
   \<and> artifact_type (POST_artifact ''a9'' ''2024-01-02T08:30:00.000Z'' example_url_input) = Note
   \<and> artifact_type (POST_artifact ''a9'' ''2024-01-02T08:30:00.000Z'' example_url_input) \<noteq> Article
   \<and> sourceUrl (POST_artifact ''a9'' ''2024-01-02T08:30:00.000Z'' example_url_input) = None"
  by (simp add: POST_artifacts_ok POST_artifact_def Let_def example_url_input_def startsWith_def)

text \<open>
  Claim C1, as the code has it. \<^verbatim>\<open>POST /api/artifacts\<close>: a non-empty \<^verbatim>\<open>imageData\<close> gives type
  \<^verbatim>\<open>screenshot\<close>; otherwise a non-empty \<^verbatim>\<open>sourceUrl\<close> gives type \<^verbatim>\<open>article\<close>; otherwise the type
  is the requested one; \<^verbatim>\<open>sourceUrl\<close> and \<^verbatim>\<open>imageData\<close> of the artifact are those of the request,
  and the content is not inspected. The tool \<^verbatim>\<open>add_to_queue\<close>: content that starts with
  \<^verbatim>\<open>http://\<close> or \<^verbatim>\<open>https://\<close> gives type \<^verbatim>\<open>article\<close> and \<^verbatim>\<open>sourceUrl\<close> equal to the content;
  otherwise the type is the requested one and there is no \<^verbatim>\<open>sourceUrl\<close>; the tool never sets
  \<^verbatim>\<open>imageData\<close>. When the store accepts the write, the handler answers with that artifact
  (\<^verbatim>\<open>POST\<close>) or with its id, title and type (\<^verbatim>\<open>add_to_queue\<close>).
\<close>

theorem creation_type_resolution:
  "(truthy (in_imageData body) \<longrightarrow> artifact_type (POST_artifact uuid nowISO body) = Screenshot)
   \<and> (\<not> truthy (in_imageData body) \<and> truthy (in_sourceUrl body) \<longrightarrow>
        artifact_type (POST_artifact uuid nowISO body) = Article)
   \<and> (\<not> truthy (in_imageData body) \<and> \<not> truthy (in_sourceUrl body) \<longrightarrow>
        artifact_type (POST_artifact uuid nowISO body) = in_type body)
   \<and> sourceUrl (POST_artifact uuid nowISO body) = in_sourceUrl body
   \<and> imageData (POST_artifact uuid nowISO body) = in_imageData body
   \<and> fst (POST_artifacts t None uuid nowISO body) = Json 200 (POST_artifact uuid nowISO body)
   \<and> (startsWith c ''http://'' \<or> startsWith c ''https://'' \<longrightarrow>
        artifact_type (add_to_queue_artifact uuid nowISO ty c) = Article
      \<and> sourceUrl (add_to_queue_artifact uuid nowISO ty c) = Some c)
   \<and> (\<not> (startsWith c ''http://'' \<or> startsWith c ''https://'') \<longrightarrow>
        artifact_type (add_to_queue_artifact uuid nowISO ty c) = ty
      \<and> sourceUrl (add_to_queue_artifact uuid nowISO ty c) = None)
   \<and> imageData (add_to_queue_artifact uuid nowISO ty c) = None
   \<and> (faults env 0 = None \<longrightarrow>
        (\<exists>txt. fst (handleToolCall ''add_to_queue'' args t env) =
           Inr \<lparr> structuredContent =
                   QueueAdded True (uuidv4 env)
                     (title (add_to_queue_artifact (uuidv4 env) (now_toISOString env)
                               (arg_type args) (arg_content args)))
                     (artifact_type (add_to_queue_artifact (uuidv4 env) (now_toISOString env)
                               (arg_type args) (arg_content args))),
                  content = [(''text'', txt)], meta = None \<rparr>))"
proof -
  have post: "(truthy (in_imageData body) \<longrightarrow> artifact_type (POST_artifact uuid nowISO body) = Screenshot)
   \<and> (\<not> truthy (in_imageData body) \<and> truthy (in_sourceUrl body) \<longrightarrow>
        artifact_type (POST_artifact uuid nowISO body) = Article)
   \<and> (\<not> truthy (in_imageData body) \<and> \<not> truthy (in_sourceUrl body) \<longrightarrow>
        artifact_type (POST_artifact uuid nowISO body) = in_type body)
   \<and> sourceUrl (POST_artifact uuid nowISO body) = in_sourceUrl body
   \<and> imageData (POST_artifact uuid nowISO body) = in_imageData body"
    by (simp add: POST_artifact_def Let_def)
  have tool: "(startsWith c ''http://'' \<or> startsWith c ''https://'' \<longrightarrow>
        artifact_type (add_to_queue_artifact uuid nowISO ty c) = Article
      \<and> sourceUrl (add_to_queue_artifact uuid nowISO ty c) = Some c)
   \<and> (\<not> (startsWith c ''http://'' \<or> startsWith c ''https://'') \<longrightarrow>
        artifact_type (add_to_queue_artifact uuid nowISO ty c) = ty
      \<and> sourceUrl (add_to_queue_artifact uuid nowISO ty c) = None)
   \<and> imageData (add_to_queue_artifact uuid nowISO ty c) = None"
    by (simp add: add_to_queue_artifact_def Let_def)
  have id: "artifact_id (add_to_queue_artifact u n ty' c') = u" for u n ty' c'
    by (simp add: add_to_queue_artifact_def Let_def)
  have call: "faults env 0 = None \<longrightarrow>
        (\<exists>txt. fst (handleToolCall ''add_to_queue'' args t env) =
           Inr \<lparr> structuredContent =
                   QueueAdded True (uuidv4 env)
                     (title (add_to_queue_artifact (uuidv4 env) (now_toISOString env)
                               (arg_type args) (arg_content args)))
                     (artifact_type (add_to_queue_artifact (uuidv4 env) (now_toISOString env)
                               (arg_type args) (arg_content args))),
                  content = [(''text'', txt)], meta = None \<rparr>)"
    by (simp add: add_to_queue_ok Let_def id)
  from post tool call show ?thesis
    using POST_artifacts_ok[of t uuid nowISO body] by simp
qed

theorem creation_type_resolution_witness:
  "truthy (in_imageData example_screenshot_input)
   \<and> artifact_type (POST_artifact ''a9'' ''2024-01-02T08:30:00.000Z'' example_screenshot_input)
       = Screenshot
   \<and> \<not> truthy (in_imageData example_url_input) \<and> \<not> truthy (in_sourceUrl example_url_input)
   \<and> artifact_type (POST_artifact ''a9'' ''2024-01-02T08:30:00.000Z'' example_url_input) = Note
   \<and> \<not> truthy (in_imageData (example_url_input\<lparr>in_sourceUrl := Some ''https://example.com/x''\<rparr>))
   \<and> artifact_type (POST_artifact ''a9'' ''2024-01-02T08:30:00.000Z''
        (example_url_input\<lparr>in_sourceUrl := Some ''https://example.com/x''\<rparr>)) = Article
   \<and> startsWith ''https://example.com/x'' ''https://''
   \<and> artifact_type (add_to_queue_artifact ''a9'' ''2024-01-02T08:30:00.000Z'' Note
        ''https://example.com/x'') = Article
   \<and> sourceUrl (add_to_queue_artifact ''a9'' ''2024-01-02T08:30:00.000Z'' Note
        ''https://example.com/x'') = Some ''https://example.com/x''
   \<and> \<not> (startsWith ''Buy milk'' ''http://'' \<or> startsWith ''Buy milk'' ''https://'')
   \<and> artifact_type (add_to_queue_artifact ''a9'' ''2024-01-02T08:30:00.000Z'' Idea ''Buy milk'')
       = Idea
   \<and> faults example_env 0 = None
   \<and> (\<exists>txt. fst (handleToolCall ''add_to_queue'' example_args [] example_env) =
          Inr \<lparr> structuredContent = QueueAdded True ''a9'' ''https://example.com/x'' Article,
                 content = [(''text'', txt)], meta = None \<rparr>)"
proof -
  note a = creation_type_resolution
             [of example_screenshot_input "''a9''" "''2024-01-02T08:30:00.000Z''" "[]"
                 "''https://example.com/x''" Note example_env example_args]
  note b = creation_type_resolution
             [of example_url_input "''a9''" "''2024-01-02T08:30:00.000Z''" "[]"
                 "''Buy milk''" Idea example_env example_args]
  note c = creation_type_resolution
             [of "example_url_input\<lparr>in_sourceUrl := Some ''https://example.com/x''\<rparr>"
                 "''a9''" "''2024-01-02T08:30:00.000Z''" "[]"
                 "''Buy milk''" Idea example_env example_args]
  have h1: "truthy (in_imageData example_screenshot_input)"
    by (simp add: example_screenshot_input_def)
  have h2: "\<not> truthy (in_imageData example_url_input) \<and> \<not> truthy (in_sourceUrl example_url_input)"
    by (simp add: example_url_input_def)
  have h3: "\<not> truthy (in_imageData (example_url_input\<lparr>in_sourceUrl := Some ''https://example.com/x''\<rparr>))
     \<and> truthy (in_sourceUrl (example_url_input\<lparr>in_sourceUrl := Some ''https://example.com/x''\<rparr>))"
    by (simp add: example_url_input_def)
  have h4: "startsWith ''https://example.com/x'' ''https://''"
    by (simp add: startsWith_def)
  have h5: "\<not> (startsWith ''Buy milk'' ''http://'' \<or> startsWith ''Buy milk'' ''https://'')"
    by (simp add: startsWith_def)
  have h6: "faults example_env 0 = None"
    by (simp add: example_env_def)
  have e: "uuidv4 example_env = ''a9''" "arg_content example_args = ''https://example.com/x''"
    "arg_type example_args = Note" "now_toISOString example_env = ''2024-01-02T08:30:00.000Z''"
    by (simp_all add: example_env_def example_args_def)
  have t: "title (add_to_queue_artifact ''a9'' ''2024-01-02T08:30:00.000Z'' Note ''https://example.com/x'')
             = ''https://example.com/x''"
    by (simp add: add_to_queue_artifact_def Let_def)
  have w1: "artifact_type (POST_artifact ''a9'' ''2024-01-02T08:30:00.000Z'' example_screenshot_input)
       = Screenshot"
    using a h1 by blast
  have w2: "artifact_type (POST_artifact ''a9'' ''2024-01-02T08:30:00.000Z'' example_url_input)
       = in_type example_url_input"
    using b h2 by blast
  have w3: "artifact_type (POST_artifact ''a9'' ''2024-01-02T08:30:00.000Z''
        (example_url_input\<lparr>in_sourceUrl := Some ''https://example.com/x''\<rparr>)) = Article"
    using c h3 by blast
  have w4: "artifact_type (add_to_queue_artifact ''a9'' ''2024-01-02T08:30:00.000Z'' Note
        ''https://example.com/x'') = Article
     \<and> sourceUrl (add_to_queue_artifact ''a9'' ''2024-01-02T08:30:00.000Z'' Note
        ''https://example.com/x'') = Some ''https://example.com/x''"
    using a h4 by blast
  have w5: "artifact_type (add_to_queue_artifact ''a9'' ''2024-01-02T08:30:00.000Z'' Idea ''Buy milk'')
       = Idea"
    using b h5 by blast
  have "\<exists>txt. fst (handleToolCall ''add_to_queue'' example_args [] example_env) =
           Inr \<lparr> structuredContent =
                   QueueAdded True (uuidv4 example_env)
                     (title (add_to_queue_artifact (uuidv4 example_env)
                               (now_toISOString example_env)
                               (arg_type example_args) (arg_content example_args)))
                     (artifact_type (add_to_queue_artifact (uuidv4 example_env)
                               (now_toISOString example_env)
                               (arg_type example_args) (arg_content example_args))),
                  content = [(''text'', txt)], meta = None \<rparr>"
    using a h6 by blast
  then have w6: "\<exists>txt. fst (handleToolCall ''add_to_queue'' example_args [] example_env) =
          Inr \<lparr> structuredContent = QueueAdded True ''a9'' ''https://example.com/x'' Article,
                 content = [(''text'', txt)], meta = None \<rparr>"
    unfolding e t using w4 by simp
  have n: "in_type example_url_input = Note"
    by (simp add: example_url_input_def)
  from h1 w1 h2 w2 h3 w3 h4 w4 h5 w5 h6 w6 show ?thesis
    unfolding n by (intro conjI) (erule conjunct1 conjunct2 | assumption)+
qed

text \<open>
  Claim C5. The artifact built by a creation operation (\<^verbatim>\<open>POST /api/artifacts\<close>, and the tool
  \<^verbatim>\<open>add_to_queue\<close> alike) has status \<^verbatim>\<open>pending\<close>; its title is the first 100 characters of
  the content, followed by \<^verbatim>\<open>...\<close> exactly when the content is longer than 100 characters, so
  content of at most 100 characters is its own title; \<^verbatim>\<open>createdAt\<close> is the ISO timestamp of the
  creation and \<^verbatim>\<open>dayBucket\<close> is its date part, the text before the \<^verbatim>\<open>T\<close>. When the store
  accepts the write, \<^verbatim>\<open>POST\<close> answers 200 with this artifact, and under a fresh id the store
  then holds it.
\<close>

theorem created_artifact_fields:
  "status (POST_artifact uuid nowISO body) = Pending
   \<and> title (POST_artifact uuid nowISO body) =
       take 100 (in_content body) @ (if 100 < length (in_content body) then ''...'' else [])
   \<and> (length (in_content body) \<le> 100 \<longrightarrow> title (POST_artifact uuid nowISO body) = in_content body)
   \<and> createdAt (POST_artifact uuid nowISO body) = nowISO
   \<and> dayBucket (POST_artifact uuid nowISO body) = split_T_0 nowISO
   \<and> (\<forall>d rest. nowISO = d @ CHR ''T'' # rest \<and> CHR ''T'' \<notin> set d \<longrightarrow>
         dayBucket (POST_artifact uuid nowISO body) = d)
   \<and> fst (POST_artifacts t None uuid nowISO body) = Json 200 (POST_artifact uuid nowISO body)
   \<and> (uuid \<notin> set (map row_id t) \<longrightarrow>
         getArtifact (snd (POST_artifacts t None uuid nowISO body)) None uuid
           = Some (POST_artifact uuid nowISO body))
   \<and> status (add_to_queue_artifact uuid nowISO ty c) = Pending
   \<and> title (add_to_queue_artifact uuid nowISO ty c) =
       take 100 c @ (if 100 < length c then ''...'' else [])
   \<and> (length c \<le> 100 \<longrightarrow> title (add_to_queue_artifact uuid nowISO ty c) = c)
   \<and> (\<forall>d rest. nowISO = d @ CHR ''T'' # rest \<and> CHR ''T'' \<notin> set d \<longrightarrow>
         dayBucket (add_to_queue_artifact uuid nowISO ty c) = d)"
proof -
  have f: "status (POST_artifact uuid nowISO body) = Pending
   \<and> title (POST_artifact uuid nowISO body) =
       take 100 (in_content body) @ (if 100 < length (in_content body) then ''...'' else [])
   \<and> (length (in_content body) \<le> 100 \<longrightarrow> title (POST_artifact uuid nowISO body) = in_content body)
   \<and> createdAt (POST_artifact uuid nowISO body) = nowISO
   \<and> dayBucket (POST_artifact uuid nowISO body) = split_T_0 nowISO"
    by (simp add: POST_artifact_def Let_def)
  have d1: "\<forall>d rest. nowISO = d @ CHR ''T'' # rest \<and> CHR ''T'' \<notin> set d \<longrightarrow>
         dayBucket (POST_artifact uuid nowISO body) = d"
    using f by (auto simp: split_T_0_date)
  have g: "status (add_to_queue_artifact uuid nowISO ty c) = Pending
   \<and> title (add_to_queue_artifact uuid nowISO ty c) =
       take 100 c @ (if 100 < length c then ''...'' else [])
   \<and> (length c \<le> 100 \<longrightarrow> title (add_to_queue_artifact uuid nowISO ty c) = c)
   \<and> dayBucket (add_to_queue_artifact uuid nowISO ty c) = split_T_0 nowISO"
    by (simp add: add_to_queue_artifact_def Let_def)
  have d2: "\<forall>d rest. nowISO = d @ CHR ''T'' # rest \<and> CHR ''T'' \<notin> set d \<longrightarrow>
         dayBucket (add_to_queue_artifact uuid nowISO ty c) = d"
    using g by (auto simp: split_T_0_date)
  have aid: "artifact_id (POST_artifact uuid nowISO body) = uuid"
    by (simp add: POST_artifact_def Let_def)
  have stored: "uuid \<notin> set (map row_id t) \<longrightarrow>
         getArtifact (snd (POST_artifacts t None uuid nowISO body)) None uuid
           = Some (POST_artifact uuid nowISO body)"
  proof
    assume "uuid \<notin> set (map row_id t)"
    then have "getArtifact (snd (saveArtifact t None (POST_artifact uuid nowISO body))) None uuid
           = Some (POST_artifact uuid nowISO body)"
      using getArtifact_after_insert[of "POST_artifact uuid nowISO body" t] by (simp add: aid)
    moreover have "snd (POST_artifacts t None uuid nowISO body)
        = snd (saveArtifact t None (POST_artifact uuid nowISO body))"
      by (simp add: POST_artifacts_def saveArtifact_def upsert_def Let_def)
    ultimately show "getArtifact (snd (POST_artifacts t None uuid nowISO body)) None uuid
           = Some (POST_artifact uuid nowISO body)"
      by simp
  qed
  from f d1 g d2 stored show ?thesis
    using POST_artifacts_ok[of t uuid nowISO body] by simp
qed

theorem created_artifact_fields_witness:
  "length (in_content example_input) \<le> 100
   \<and> title (POST_artifact ''a9'' ''2024-01-02T08:30:00.000Z'' example_input) = ''Buy milk''
   \<and> artifact_type (POST_artifact ''a9'' ''2024-01-02T08:30:00.000Z'' example_input) = Idea
   \<and> status (POST_artifact ''a9'' ''2024-01-02T08:30:00.000Z'' example_input) = Pending
   \<and> ''2024-01-02T08:30:00.000Z'' = ''2024-01-02'' @ CHR ''T'' # ''08:30:00.000Z''
   \<and> CHR ''T'' \<notin> set ''2024-01-02''
   \<and> dayBucket (POST_artifact ''a9'' ''2024-01-02T08:30:00.000Z'' example_input) = ''2024-01-02''
   \<and> ''a9'' \<notin> set (map row_id [example_row])
   \<and> getArtifact (snd (POST_artifacts [example_row] None ''a9'' ''2024-01-02T08:30:00.000Z''
        example_input)) None ''a9''
       = Some (POST_artifact ''a9'' ''2024-01-02T08:30:00.000Z'' example_input)
   \<and> title (add_to_queue_artifact ''a9'' ''2024-01-02T08:30:00.000Z'' Idea ''Buy milk'')
       = ''Buy milk''
   \<and> dayBucket (add_to_queue_artifact ''a9'' ''2024-01-02T08:30:00.000Z'' Idea ''Buy milk'')
       = ''2024-01-02''"
proof -
  note w = created_artifact_fields
             [of "''a9''" "''2024-01-02T08:30:00.000Z''" example_input "[example_row]" Idea
                 "''Buy milk''"]
  have len: "length (in_content example_input) \<le> 100" and c: "in_content example_input = ''Buy milk''"
    by (simp_all add: example_input_def)
  have shape: "''2024-01-02T08:30:00.000Z'' = ''2024-01-02'' @ CHR ''T'' # ''08:30:00.000Z''
     \<and> CHR ''T'' \<notin> set ''2024-01-02''"
    by simp
  have fresh: "''a9'' \<notin> set (map row_id [example_row])"
    by (simp add: example_row_def)
  have ty: "artifact_type (POST_artifact ''a9'' ''2024-01-02T08:30:00.000Z'' example_input) = Idea"
    by (simp add: POST_artifact_def Let_def example_input_def)
  have w_title: "title (POST_artifact ''a9'' ''2024-01-02T08:30:00.000Z'' example_input) = ''Buy milk''"
    using w len unfolding c by blast
  have w_status: "status (POST_artifact ''a9'' ''2024-01-02T08:30:00.000Z'' example_input) = Pending"
    using w by blast
  have w_all: "\<forall>d rest. ''2024-01-02T08:30:00.000Z'' = d @ CHR ''T'' # rest \<and> CHR ''T'' \<notin> set d \<longrightarrow>
         dayBucket (POST_artifact ''a9'' ''2024-01-02T08:30:00.000Z'' example_input) = d"
    using w by blast
  have w_day: "dayBucket (POST_artifact ''a9'' ''2024-01-02T08:30:00.000Z'' example_input) = ''2024-01-02''"
    using w_all[rule_format, of "''2024-01-02''" "''08:30:00.000Z''"] shape by blast
  have w_stored: "getArtifact (snd (POST_artifacts [example_row] None ''a9'' ''2024-01-02T08:30:00.000Z''
        example_input)) None ''a9''
       = Some (POST_artifact ''a9'' ''2024-01-02T08:30:00.000Z'' example_input)"
    using w fresh by blast
  have len2: "length ''Buy milk'' \<le> 100"
    by simp
  have w_title2: "title (add_to_queue_artifact ''a9'' ''2024-01-02T08:30:00.000Z'' Idea ''Buy milk'')
       = ''Buy milk''"
    using w len2 by blast
  have w_all2: "\<forall>d rest. ''2024-01-02T08:30:00.000Z'' = d @ CHR ''T'' # rest \<and> CHR ''T'' \<notin> set d \<longrightarrow>
         dayBucket (add_to_queue_artifact ''a9'' ''2024-01-02T08:30:00.000Z'' Idea ''Buy milk'') = d"
    using w by blast
  have w_day2: "dayBucket (add_to_queue_artifact ''a9'' ''2024-01-02T08:30:00.000Z'' Idea ''Buy milk'')
       = ''2024-01-02''"
    using w_all2[rule_format, of "''2024-01-02''" "''08:30:00.000Z''"] shape by blast
  from len w_title ty w_status shape w_day fresh w_stored w_title2 w_day2 show ?thesis
    by (intro conjI) (erule conjunct1 conjunct2 | assumption)+
qed

subsection \<open>Claims about the status update\<close>

lemma update_after:
  assumes cur: "getArtifact t None i = Some current"
    and upd: "updateArtifactStatus t fault1 fault2 nowISO i st patch = (Some updated, t')"
  shows "\<exists>r. filter (\<lambda>row. row_id row = i) t = [r] \<and> current = rowToArtifact r
           \<and> updated = rowToArtifact (apply_updates (status_updates current nowISO st patch) r)
           \<and> t' = map (\<lambda>x. if row_id x = i
                             then apply_updates (status_updates current nowISO st patch) x
                             else x) t"
proof -
  from updateArtifactStatus_Some[OF upd] obtain r where
    r: "filter (\<lambda>row. row_id row = i) t = [r]"
    and u: "updated = rowToArtifact (apply_updates (status_updates (rowToArtifact r) nowISO st patch) r)"
    and t': "t' = map (\<lambda>x. if row_id x = i
                             then apply_updates (status_updates (rowToArtifact r) nowISO st patch) x
                             else x) t"
    by blast
  from cur r have "current = rowToArtifact r"
    by (simp add: getArtifact_Some_iff)
  with r u t' show ?thesis by blast
qed

lemma update_stamps:
  assumes cur: "getArtifact t None i = Some current"
    and upd: "updateArtifactStatus t fault1 fault2 nowISO i st patch = (Some updated, t')"
  shows "playedAt updated =
           (if st = Playing \<and> \<not> truthy (playedAt current) then Some nowISO else playedAt current)"
    and "completedAt updated =
           (if st = Completed \<and> \<not> truthy (completedAt current) then Some nowISO
            else completedAt current)"
proof -
  from update_after[OF cur upd] obtain r where
    c: "current = rowToArtifact r"
    and u: "updated = rowToArtifact (apply_updates (status_updates current nowISO st patch) r)"
    by blast
  show "playedAt updated =
           (if st = Playing \<and> \<not> truthy (playedAt current) then Some nowISO else playedAt current)"
    unfolding u by (simp add: c rowToArtifact_def apply_updates_def status_updates_def)
  show "completedAt updated =
           (if st = Completed \<and> \<not> truthy (completedAt current) then Some nowISO
            else completedAt current)"
    unfolding u by (simp add: c rowToArtifact_def apply_updates_def status_updates_def)
qed

lemma update_twice:
  assumes one: "updateArtifactStatus t f1 f2 now1 i st p1 = (Some a1, t1)"
    and two: "updateArtifactStatus t1 g1 g2 now2 i st p2 = (Some a2, t2)"
    and now: "now1 \<noteq> []"
  shows "st = Playing \<Longrightarrow> truthy (playedAt a1) \<and> playedAt a2 = playedAt a1"
    and "st = Completed \<Longrightarrow> truthy (completedAt a1) \<and> completedAt a2 = completedAt a1"
proof -
  from updateArtifactStatus_Some[OF one] obtain r where
    "filter (\<lambda>row. row_id row = i) t = [r]" by blast
  then have cur: "getArtifact t None i = Some (rowToArtifact r)"
    by (simp add: getArtifact_Some_iff)
  have stored: "getArtifact t1 None i = Some a1"
    using one by (rule updateArtifactStatus_stored)
  note s1 = update_stamps[OF cur one] and s2 = update_stamps[OF stored two]
  show "truthy (playedAt a1) \<and> playedAt a2 = playedAt a1" if "st = Playing"
  proof -
    from s1(1) that now have "truthy (playedAt a1)"
      by (cases "truthy (playedAt (rowToArtifact r))") simp_all
    with s2(1) show ?thesis by simp
  qed
  show "truthy (completedAt a1) \<and> completedAt a2 = completedAt a1" if "st = Completed"
  proof -
    from s1(2) that now have "truthy (completedAt a1)"
      by (cases "truthy (completedAt (rowToArtifact r))") simp_all
    with s2(2) show ?thesis by simp
  qed
qed

text \<open>
  Claim C2. Let \<open>current\<close> be the stored artifact with id \<open>i\<close>, and take any call of
  \<^verbatim>\<open>updateArtifactStatus\<close> on that id, with any status, patch, faults and clock. Afterwards
  the store still holds an artifact \<open>after\<close> with that id (the one the call returned, when it
  returned one), and:
  \<^item> a \<^verbatim>\<open>playedAt\<close> that was set is unchanged, and so is a \<^verbatim>\<open>completedAt\<close> that was set;
  \<^item> \<^verbatim>\<open>playedAt\<close> changes only under the status \<^verbatim>\<open>playing\<close>, and then to the current time;
    \<^verbatim>\<open>completedAt\<close> changes only under \<^verbatim>\<open>completed\<close>, and then to the current time.
  In particular, of two successive calls with status \<^verbatim>\<open>playing\<close> that both return an artifact,
  the second returns the \<^verbatim>\<open>playedAt\<close> of the first, which is not null; likewise for
  \<^verbatim>\<open>completed\<close> and \<^verbatim>\<open>completedAt\<close>. Here "set" is what the code tests,
  \<^verbatim>\<open>!current.playedAt\<close>: a non-empty string, as every stamp \<^verbatim>\<open>new Date().toISOString()\<close> is.
\<close>

theorem stamps_are_written_once:
  "(getArtifact t None i = Some current
      \<and> updateArtifactStatus t fault1 fault2 nowISO i st patch = (res, t') \<longrightarrow>
      (\<exists>after. getArtifact t' None i = Some after \<and> (res = None \<or> res = Some after)
         \<and> (truthy (playedAt current) \<longrightarrow> playedAt after = playedAt current)
         \<and> (truthy (completedAt current) \<longrightarrow> completedAt after = completedAt current)
         \<and> (playedAt after \<noteq> playedAt current \<longrightarrow>
              st = Playing \<and> playedAt after = Some nowISO)
         \<and> (completedAt after \<noteq> completedAt current \<longrightarrow>
              st = Completed \<and> completedAt after = Some nowISO)))
   \<and> (updateArtifactStatus t f1 f2 now1 i Playing p1 = (Some a1, t1) \<and> now1 \<noteq> []
        \<and> updateArtifactStatus t1 g1 g2 now2 i Playing p2 = (Some a2, t2) \<longrightarrow>
        playedAt a1 \<noteq> None \<and> playedAt a2 = playedAt a1)
   \<and> (updateArtifactStatus t f1 f2 now1 i Completed p1 = (Some b1, u1) \<and> now1 \<noteq> []
        \<and> updateArtifactStatus u1 g1 g2 now2 i Completed p2 = (Some b2, u2) \<longrightarrow>
        completedAt b1 \<noteq> None \<and> completedAt b2 = completedAt b1)"
proof (intro conjI impI)
  assume h: "getArtifact t None i = Some current
      \<and> updateArtifactStatus t fault1 fault2 nowISO i st patch = (res, t')"
  show "\<exists>after. getArtifact t' None i = Some after \<and> (res = None \<or> res = Some after)
         \<and> (truthy (playedAt current) \<longrightarrow> playedAt after = playedAt current)
         \<and> (truthy (completedAt current) \<longrightarrow> completedAt after = completedAt current)
         \<and> (playedAt after \<noteq> playedAt current \<longrightarrow>
              st = Playing \<and> playedAt after = Some nowISO)
         \<and> (completedAt after \<noteq> completedAt current \<longrightarrow>
              st = Completed \<and> completedAt after = Some nowISO)"
  proof (cases res)
    case None
    with h have "t' = t" by (auto dest: updateArtifactStatus_None)
    with h None show ?thesis by auto
  next
    case (Some updated)
    with h have cur: "getArtifact t None i = Some current"
      and upd: "updateArtifactStatus t fault1 fault2 nowISO i st patch = (Some updated, t')"
      by simp_all
    have "getArtifact t' None i = Some updated"
      using upd by (rule updateArtifactStatus_stored)
    moreover note update_stamps[OF cur upd]
    ultimately show ?thesis
      using Some by (intro exI[of _ updated]) (simp split: if_splits)
  qed
next
  assume h: "updateArtifactStatus t f1 f2 now1 i Playing p1 = (Some a1, t1) \<and> now1 \<noteq> []
        \<and> updateArtifactStatus t1 g1 g2 now2 i Playing p2 = (Some a2, t2)"
  then have "truthy (playedAt a1) \<and> playedAt a2 = playedAt a1"
    using update_twice(1)[of t f1 f2 now1 i Playing p1 a1 t1 g1 g2 now2 p2 a2 t2] by simp
  then show "playedAt a1 \<noteq> None" and "playedAt a2 = playedAt a1"
    by (cases "playedAt a1"; simp)+
next
  assume h: "updateArtifactStatus t f1 f2 now1 i Completed p1 = (Some b1, u1) \<and> now1 \<noteq> []
        \<and> updateArtifactStatus u1 g1 g2 now2 i Completed p2 = (Some b2, u2)"
  then have "truthy (completedAt b1) \<and> completedAt b2 = completedAt b1"
    using update_twice(2)[of t f1 f2 now1 i Completed p1 b1 u1 g1 g2 now2 p2 b2 u2] by simp
  then show "completedAt b1 \<noteq> None" and "completedAt b2 = completedAt b1"
    by (cases "completedAt b1"; simp)+
qed


lemma example_row_lookup:
  "getArtifact [example_row] None ''a1'' = Some (rowToArtifact example_row)"
  "getArtifact [example_played_row] None ''a1'' = Some (rowToArtifact example_played_row)"
  "getArtifact [example_completed_row] None ''a1'' = Some (rowToArtifact example_completed_row)"
  by (simp_all add: getArtifact_def select_single_def example_played_row_def
        example_completed_row_def example_row_def)

lemma example_row_play:
  "updateArtifactStatus [example_row] None None ''2024-01-02T08:30:00.000Z'' ''a1'' Playing None
     = (Some (rowToArtifact example_played_row), [example_played_row])"
  "updateArtifactStatus [example_played_row] None None ''2024-01-05T07:00:00.000Z'' ''a1'' Playing None
     = (Some (rowToArtifact example_played_row), [example_played_row])"
  by (simp_all add: updateArtifactStatus_def getArtifact_def select_single_def update_single_def
        status_updates_def apply_updates_def rowToArtifact_def example_played_row_def
        example_row_def)

lemma example_row_complete:
  "updateArtifactStatus [example_row] None None ''2024-01-02T08:30:00.000Z'' ''a1'' Completed None
     = (Some (rowToArtifact example_completed_row), [example_completed_row])"
  "updateArtifactStatus [example_completed_row] None None ''2024-01-05T07:00:00.000Z'' ''a1''
       Completed None
     = (Some (rowToArtifact example_completed_row), [example_completed_row])"
  by (simp_all add: updateArtifactStatus_def getArtifact_def select_single_def update_single_def
        status_updates_def apply_updates_def rowToArtifact_def example_completed_row_def
        example_row_def)

theorem stamps_are_written_once_witness:
  "updateArtifactStatus [example_row] None None ''2024-01-02T08:30:00.000Z'' ''a1'' Playing None
     = (Some (rowToArtifact example_played_row), [example_played_row])
   \<and> ''2024-01-02T08:30:00.000Z'' \<noteq> []
   \<and> updateArtifactStatus [example_played_row] None None ''2024-01-05T07:00:00.000Z'' ''a1''
        Playing None
     = (Some (rowToArtifact example_played_row), [example_played_row])
   \<and> playedAt (rowToArtifact example_played_row) = Some ''2024-01-02T08:30:00.000Z''
   \<and> updateArtifactStatus [example_row] None None ''2024-01-02T08:30:00.000Z'' ''a1'' Completed None
     = (Some (rowToArtifact example_completed_row), [example_completed_row])
   \<and> updateArtifactStatus [example_completed_row] None None ''2024-01-05T07:00:00.000Z'' ''a1''
        Completed None
     = (Some (rowToArtifact example_completed_row), [example_completed_row])
   \<and> completedAt (rowToArtifact example_completed_row) = Some ''2024-01-02T08:30:00.000Z''
   \<and> getArtifact [example_played_row] None ''a1'' = Some (rowToArtifact example_played_row)
   \<and> truthy (playedAt (rowToArtifact example_played_row))
   \<and> (\<exists>after. getArtifact [example_played_row] None ''a1'' = Some after
         \<and> playedAt after = playedAt (rowToArtifact example_played_row))
   \<and> playedAt (rowToArtifact example_played_row) \<noteq> None
   \<and> completedAt (rowToArtifact example_completed_row) \<noteq> None"
proof -
  note w = stamps_are_written_once
             [where t = "[example_played_row]" and i = "''a1''"
                and current = "rowToArtifact example_played_row"
                and ?fault1.0 = None and ?fault2.0 = None
                and nowISO = "''2024-01-05T07:00:00.000Z''" and st = Playing and patch = None
                and res = "Some (rowToArtifact example_played_row)"
                and t' = "[example_played_row]"]
  note v = stamps_are_written_once
             [where t = "[example_row]" and i = "''a1''"
                and ?f1.0 = None and ?f2.0 = None and ?now1.0 = "''2024-01-02T08:30:00.000Z''"
                and ?p1.0 = None and ?a1.0 = "rowToArtifact example_played_row"
                and ?t1.0 = "[example_played_row]"
                and ?g1.0 = None and ?g2.0 = None and ?now2.0 = "''2024-01-05T07:00:00.000Z''"
                and ?p2.0 = None and ?a2.0 = "rowToArtifact example_played_row"
                and ?t2.0 = "[example_played_row]"
                and ?b1.0 = "rowToArtifact example_completed_row"
                and ?u1.0 = "[example_completed_row]"
                and ?b2.0 = "rowToArtifact example_completed_row"
                and ?u2.0 = "[example_completed_row]"]
  have ne: "''2024-01-02T08:30:00.000Z'' \<noteq> []"
    by simp
  have tr: "truthy (playedAt (rowToArtifact example_played_row))"
    by (simp add: rowToArtifact_def example_played_row_def)
  have p: "playedAt (rowToArtifact example_played_row) = Some ''2024-01-02T08:30:00.000Z''"
    by (simp add: rowToArtifact_def example_played_row_def)
  have c: "completedAt (rowToArtifact example_completed_row) = Some ''2024-01-02T08:30:00.000Z''"
    by (simp add: rowToArtifact_def example_completed_row_def)
  have ex: "\<exists>after. getArtifact [example_played_row] None ''a1'' = Some after
         \<and> playedAt after = playedAt (rowToArtifact example_played_row)"
    using w example_row_lookup(2) example_row_play(2) tr by blast
  have tw1: "playedAt (rowToArtifact example_played_row) \<noteq> None"
    using v example_row_play ne by blast
  have tw2: "completedAt (rowToArtifact example_completed_row) \<noteq> None"
    using v example_row_complete ne by blast
  from example_row_play(1) ne example_row_play(2) p example_row_complete(1) example_row_complete(2)
       c example_row_lookup(2) tr ex tw1 tw2
  show ?thesis
    by (intro conjI) assumption+
qed

text \<open>
  Claim C10. Let \<open>current\<close> be the stored artifact with id \<open>i\<close>. A call of
  \<^verbatim>\<open>updateArtifactStatus\<close> that returns no artifact leaves the table as it was. A call that
  returns \<open>updated\<close> has stored it under \<open>i\<close>, and \<open>updated\<close> agrees with \<open>current\<close> on
  \<^verbatim>\<open>id\<close>, \<^verbatim>\<open>userId\<close>, \<^verbatim>\<open>type\<close>, \<^verbatim>\<open>rawContent\<close>, \<^verbatim>\<open>sourceUrl\<close>, \<^verbatim>\<open>imageData\<close>, \<^verbatim>\<open>createdAt\<close> and
  \<^verbatim>\<open>dayBucket\<close>, whatever the patch carries; its status is the new status; each of
  \<^verbatim>\<open>summary\<close>, \<^verbatim>\<open>fullAudioText\<close>, \<^verbatim>\<open>title\<close>, \<^verbatim>\<open>tags\<close> is the patch's value when the patch
  supplies one and unchanged otherwise; \<^verbatim>\<open>playedAt\<close> is unchanged unless the status is
  \<^verbatim>\<open>playing\<close> and \<^verbatim>\<open>completedAt\<close> unless it is \<^verbatim>\<open>completed\<close>. The rows with other ids are
  unchanged, and no row is added or removed.
\<close>

theorem status_update_frame:
  "getArtifact t None i = Some current
     \<and> updateArtifactStatus t fault1 fault2 nowISO i st patch = (res, t') \<longrightarrow>
     (res = None \<longrightarrow> t' = t)
     \<and> (\<forall>updated. res = Some updated \<longrightarrow>
          getArtifact t' None i = Some updated
        \<and> artifact_id updated = artifact_id current \<and> userId updated = userId current
        \<and> artifact_type updated = artifact_type current \<and> rawContent updated = rawContent current
        \<and> sourceUrl updated = sourceUrl current \<and> imageData updated = imageData current
        \<and> createdAt updated = createdAt current \<and> dayBucket updated = dayBucket current
        \<and> status updated = st
        \<and> summary updated =
            (case Option.bind patch p_summary of None \<Rightarrow> summary current | Some v \<Rightarrow> Some v)
        \<and> fullAudioText updated =
            (case Option.bind patch p_fullAudioText of None \<Rightarrow> fullAudioText current
             | Some v \<Rightarrow> Some v)
        \<and> title updated = (case Option.bind patch p_title of None \<Rightarrow> title current | Some v \<Rightarrow> v)
        \<and> tags updated = (case Option.bind patch p_tags of None \<Rightarrow> tags current | Some v \<Rightarrow> v)
        \<and> (st \<noteq> Playing \<longrightarrow> playedAt updated = playedAt current)
        \<and> (st \<noteq> Completed \<longrightarrow> completedAt updated = completedAt current)
        \<and> filter (\<lambda>r. row_id r \<noteq> i) t' = filter (\<lambda>r. row_id r \<noteq> i) t
        \<and> map row_id t' = map row_id t)"
proof (intro impI conjI allI)
  assume h: "getArtifact t None i = Some current
     \<and> updateArtifactStatus t fault1 fault2 nowISO i st patch = (res, t')"
  {
    assume "res = None"
    with h show "t' = t" by (auto dest: updateArtifactStatus_None)
  }
  fix updated
  assume r: "res = Some updated"
  with h have cur: "getArtifact t None i = Some current"
    and upd: "updateArtifactStatus t fault1 fault2 nowISO i st patch = (Some updated, t')"
    by simp_all
  from update_after[OF cur upd] obtain r where
    c: "current = rowToArtifact r"
    and u: "updated = rowToArtifact (apply_updates (status_updates current nowISO st patch) r)"
    and t': "t' = map (\<lambda>x. if row_id x = i
                             then apply_updates (status_updates current nowISO st patch) x
                             else x) t"
    by blast
  show "getArtifact t' None i = Some updated"
    using upd by (rule updateArtifactStatus_stored)
  show "artifact_id updated = artifact_id current" "userId updated = userId current"
    "artifact_type updated = artifact_type current" "rawContent updated = rawContent current"
    "sourceUrl updated = sourceUrl current" "imageData updated = imageData current"
    "createdAt updated = createdAt current" "dayBucket updated = dayBucket current"
    "status updated = st"
    unfolding u by (simp_all add: c rowToArtifact_def apply_updates_def status_updates_def)
  show "summary updated =
            (case Option.bind patch p_summary of None \<Rightarrow> summary current | Some v \<Rightarrow> Some v)"
    "fullAudioText updated =
            (case Option.bind patch p_fullAudioText of None \<Rightarrow> fullAudioText current
             | Some v \<Rightarrow> Some v)"
    "title updated = (case Option.bind patch p_title of None \<Rightarrow> title current | Some v \<Rightarrow> v)"
    "tags updated = (case Option.bind patch p_tags of None \<Rightarrow> tags current | Some v \<Rightarrow> v)"
    unfolding u
    by (cases patch;
        simp add: c rowToArtifact_def apply_updates_def status_updates_def split: option.splits)+
  show "playedAt updated = playedAt current" if "st \<noteq> Playing"
    using update_stamps(1)[OF cur upd] that by simp
  show "completedAt updated = completedAt current" if "st \<noteq> Completed"
    using update_stamps(2)[OF cur upd] that by simp
  show "filter (\<lambda>r. row_id r \<noteq> i) t' = filter (\<lambda>r. row_id r \<noteq> i) t"
    unfolding t' by (rule filter_other_map_update)
  show "map row_id t' = map row_id t"
    unfolding t' by (induction t) (simp_all add: row_id_apply_updates)
qed


lemma example_row_patch:
  "updateArtifactStatus [example_row] None None ''2024-01-02T08:30:00.000Z'' ''a1'' Processing
       (Some example_patch)
     = (Some (rowToArtifact example_patched_row), [example_patched_row])"
  by (simp add: updateArtifactStatus_def getArtifact_def select_single_def update_single_def
        status_updates_def apply_updates_def rowToArtifact_def example_patched_row_def
        example_patch_def example_row_def)

theorem status_update_frame_witness:
  "getArtifact [example_row] None ''a1'' = Some (rowToArtifact example_row)
   \<and> updateArtifactStatus [example_row] None None ''2024-01-02T08:30:00.000Z'' ''a1'' Processing
        (Some example_patch)
       = (Some (rowToArtifact example_patched_row), [example_patched_row])
   \<and> p_id example_patch = Some ''zz'' \<and> p_rawContent example_patch = Some ''overwritten?''
   \<and> p_dayBucket example_patch = Some ''1999-01-01''
   \<and> artifact_id (rowToArtifact example_patched_row) = ''a1''
   \<and> rawContent (rowToArtifact example_patched_row) = ''Buy milk''
   \<and> dayBucket (rowToArtifact example_patched_row) = ''2024-01-01''
   \<and> createdAt (rowToArtifact example_patched_row) = ''2024-01-01T10:00:00.000Z''
   \<and> status (rowToArtifact example_patched_row) = Processing
   \<and> title (rowToArtifact example_patched_row) = ''Milk''
   \<and> summary (rowToArtifact example_patched_row) = None
   \<and> playedAt (rowToArtifact example_patched_row) = None"
proof -
  note w = status_update_frame
             [where t = "[example_row]" and i = "''a1''" and current = "rowToArtifact example_row"
                and ?fault1.0 = None and ?fault2.0 = None
                and nowISO = "''2024-01-02T08:30:00.000Z''" and st = Processing
                and patch = "Some example_patch"
                and res = "Some (rowToArtifact example_patched_row)"
                and t' = "[example_patched_row]"]
  have f: "artifact_id (rowToArtifact example_patched_row) = artifact_id (rowToArtifact example_row)"
    "rawContent (rowToArtifact example_patched_row) = rawContent (rowToArtifact example_row)"
    "dayBucket (rowToArtifact example_patched_row) = dayBucket (rowToArtifact example_row)"
    "createdAt (rowToArtifact example_patched_row) = createdAt (rowToArtifact example_row)"
    "status (rowToArtifact example_patched_row) = Processing"
    "title (rowToArtifact example_patched_row) =
       (case Option.bind (Some example_patch) p_title of
          None \<Rightarrow> title (rowToArtifact example_row) | Some v \<Rightarrow> v)"
    "summary (rowToArtifact example_patched_row) =
       (case Option.bind (Some example_patch) p_summary of
          None \<Rightarrow> summary (rowToArtifact example_row) | Some v \<Rightarrow> Some v)"
    "playedAt (rowToArtifact example_patched_row) = playedAt (rowToArtifact example_row)"
    using w example_row_lookup(1) example_row_patch by blast+
  have old: "artifact_id (rowToArtifact example_row) = ''a1''"
    "rawContent (rowToArtifact example_row) = ''Buy milk''"
    "dayBucket (rowToArtifact example_row) = ''2024-01-01''"
    "createdAt (rowToArtifact example_row) = ''2024-01-01T10:00:00.000Z''"
    "summary (rowToArtifact example_row) = None"
    "playedAt (rowToArtifact example_row) = None"
    by (simp_all add: rowToArtifact_def example_row_def)
  have pf: "p_id example_patch = Some ''zz''" "p_rawContent example_patch = Some ''overwritten?''"
    "p_dayBucket example_patch = Some ''1999-01-01''" "p_title example_patch = Some ''Milk''"
    "p_summary example_patch = None"
    by (simp_all add: example_patch_def)
  from f(1-5) have g: "artifact_id (rowToArtifact example_patched_row) = ''a1''"
    "rawContent (rowToArtifact example_patched_row) = ''Buy milk''"
    "dayBucket (rowToArtifact example_patched_row) = ''2024-01-01''"
    "createdAt (rowToArtifact example_patched_row) = ''2024-01-01T10:00:00.000Z''"
    "status (rowToArtifact example_patched_row) = Processing"
    by (simp_all only: old)
  from f(6) have g6: "title (rowToArtifact example_patched_row) = ''Milk''"
    by (simp add: pf)
  from f(7) have g7: "summary (rowToArtifact example_patched_row) = None"
    by (simp add: pf old)
  from f(8) have g8: "playedAt (rowToArtifact example_patched_row) = None"
    by (simp only: old)
  from example_row_lookup(1) example_row_patch pf(1-3) g g6 g7 g8 show ?thesis
    by (intro conjI) assumption+
qed

subsection \<open>Claims about the day groups\<close>

lemma distinct_insort_cmp:
  "distinct (map f (insort_cmp c x ys)) \<longleftrightarrow> f x \<notin> f ` set ys \<and> distinct (map f ys)"
  by (induction ys) (auto simp: set_insort_cmp)

lemma distinct_sort_cmp: "distinct (map f (sort_cmp c xs)) \<longleftrightarrow> distinct (map f xs)"
proof (induction xs)
  case Nil
  then show ?case by (simp add: sort_cmp_def)
next
  case (Cons x xs)
  have "set (foldr (insort_cmp c) xs []) = set xs"
    using set_sort_cmp[of c xs] by (simp add: sort_cmp_def)
  with Cons show ?case
    by (simp add: sort_cmp_def distinct_insort_cmp)
qed

lemma strict_of_distinct:
  fixes key :: "'a \<Rightarrow> 'b::linorder"
  assumes "sorted_wrt (\<lambda>g h. key h \<le> key g) xs" and "distinct (map key xs)"
  shows "sorted_wrt (\<lambda>g h. key h < key g) xs"
  using assms
proof (induction xs)
  case Nil
  then show ?case by simp
next
  case (Cons x xs)
  from Cons.prems have "key x \<notin> key ` set xs" and "\<forall>y\<in>set xs. key y \<le> key x"
    by simp_all
  then have "\<forall>y\<in>set xs. key y \<le> key x \<and> key y \<noteq> key x"
    by (metis image_eqI)
  then have "\<forall>y\<in>set xs. key y < key x"
    by (simp add: less_le)
  with Cons show ?case by simp
qed

lemma date_mkDayGroup: "map date (map mkDayGroup gs) = map fst gs"
  by (induction gs) (auto simp: mkDayGroup_def)

lemma getDayGroups_set:
  "set (getDayGroups lc t fault uid) =
     mkDayGroup ` set (foldl (\<lambda>gs a. groups_add a gs) [] (getAllArtifacts t fault uid))"
  by (simp add: getDayGroups_def Let_def set_sort_cmp)

lemma getDayGroups_member:
  assumes "g \<in> set (getDayGroups lc t fault uid)"
  shows "date g \<in> dayBucket ` set (getAllArtifacts t fault uid)
         \<and> g = mkDayGroup (date g, filter (\<lambda>a. dayBucket a = date g) (getAllArtifacts t fault uid))"
proof -
  from assms obtain d arts where
    m: "(d, arts) \<in> set (foldl (\<lambda>gs a. groups_add a gs) [] (getAllArtifacts t fault uid))"
    and g: "g = mkDayGroup (d, arts)"
    unfolding getDayGroups_set by auto
  from m have "d \<in> dayBucket ` set (getAllArtifacts t fault uid)"
    and "arts = filter (\<lambda>a. dayBucket a = d) (getAllArtifacts t fault uid)"
    by (simp_all add: groups_member)
  moreover from g have "date g = d"
    by (simp add: mkDayGroup_def)
  ultimately show ?thesis
    using g by simp
qed

text \<open>
  Claim C4. In every day group returned by \<^verbatim>\<open>getDayGroups(userId)\<close> the artifacts are the
  user's artifacts of that day (at least one), and the statistics count them:
  \<^verbatim>\<open>stats.total\<close> is their number, \<^verbatim>\<open>stats.pending\<close> the number with status \<^verbatim>\<open>pending\<close> or
  \<^verbatim>\<open>processing\<close>, \<^verbatim>\<open>stats.ready\<close> the number with status \<^verbatim>\<open>ready\<close>, \<^verbatim>\<open>stats.completed\<close> the
  number with status \<^verbatim>\<open>completed\<close>; and pending + ready + completed + the number with status
  \<^verbatim>\<open>playing\<close> is the total. This holds for every collation behind \<^verbatim>\<open>localeCompare\<close>.
\<close>

theorem day_group_stats:
  "\<forall>g\<in>set (getDayGroups localeCompare t fault uid).
     artifacts g = filter (\<lambda>a. dayBucket a = date g) (getAllArtifacts t fault uid)
   \<and> artifacts g \<noteq> []
   \<and> total (stats g) = length (artifacts g)
   \<and> pending (stats g) =
       length (filter (\<lambda>a. status a = Pending \<or> status a = Processing) (artifacts g))
   \<and> ready (stats g) = length (filter (\<lambda>a. status a = Ready) (artifacts g))
   \<and> completed (stats g) = length (filter (\<lambda>a. status a = Completed) (artifacts g))
   \<and> pending (stats g) + ready (stats g) + completed (stats g)
       + length (filter (\<lambda>a. status a = Playing) (artifacts g)) = total (stats g)"
proof
  fix g
  assume "g \<in> set (getDayGroups localeCompare t fault uid)"
  from getDayGroups_member[OF this] have
    d: "date g \<in> dayBucket ` set (getAllArtifacts t fault uid)"
    and g: "g = mkDayGroup (date g, filter (\<lambda>a. dayBucket a = date g) (getAllArtifacts t fault uid))"
    by simp_all
  let ?arts = "filter (\<lambda>a. dayBucket a = date g) (getAllArtifacts t fault uid)"
  have a: "artifacts g = ?arts"
    by (subst g) (simp add: mkDayGroup_def)
  have s: "stats g =
      \<lparr> total = length ?arts,
        pending = length (filter (\<lambda>a. status a = Pending \<or> status a = Processing) ?arts),
        ready = length (filter (\<lambda>a. status a = Ready) ?arts),
        completed = length (filter (\<lambda>a. status a = Completed) ?arts) \<rparr>"
    by (subst g) (simp add: mkDayGroup_def)
  from d obtain x where "x \<in> set (getAllArtifacts t fault uid)" and "dayBucket x = date g"
    by auto
  then have ne: "?arts \<noteq> []"
    by (auto simp: filter_empty_conv)
  show "artifacts g = ?arts
   \<and> artifacts g \<noteq> []
   \<and> total (stats g) = length (artifacts g)
   \<and> pending (stats g) =
       length (filter (\<lambda>a. status a = Pending \<or> status a = Processing) (artifacts g))
   \<and> ready (stats g) = length (filter (\<lambda>a. status a = Ready) (artifacts g))
   \<and> completed (stats g) = length (filter (\<lambda>a. status a = Completed) (artifacts g))
   \<and> pending (stats g) + ready (stats g) + completed (stats g)
       + length (filter (\<lambda>a. status a = Playing) (artifacts g)) = total (stats g)"
    unfolding a s using ne length_by_status[of ?arts] by simp
qed

text \<open>
  Claim C8. The groups returned by \<^verbatim>\<open>getDayGroups(userId)\<close> are in descending lexicographic
  order of their date strings, each date once, and the dates are the user's day buckets.
  The code sorts with \<^verbatim>\<open>b.date.localeCompare(a.date)\<close>; the order is the lexicographic one
  wherever the host's collation agrees in sign with the code-unit order on the day buckets
  present, as it does on \<^verbatim>\<open>YYYY-MM-DD\<close> strings.
\<close>

theorem day_groups_sorted_descending:
  "(\<forall>a\<in>dayBucket ` set (getAllArtifacts t fault uid).
      \<forall>b\<in>dayBucket ` set (getAllArtifacts t fault uid).
        (localeCompare a b < 0 \<longleftrightarrow> a < b) \<and> (localeCompare a b = 0 \<longleftrightarrow> a = b)) \<longrightarrow>
   sorted_wrt (\<lambda>g h. date h < date g) (getDayGroups localeCompare t fault uid)
   \<and> set (map date (getDayGroups localeCompare t fault uid))
       = dayBucket ` set (getAllArtifacts t fault uid)"
proof
  let ?xs = "getAllArtifacts t fault uid"
  let ?gs = "foldl (\<lambda>gs a. groups_add a gs) [] ?xs"
  let ?dgs = "map mkDayGroup ?gs"
  let ?c = "\<lambda>a b. localeCompare (date b) (date a)"
  assume h: "\<forall>a\<in>dayBucket ` set ?xs. \<forall>b\<in>dayBucket ` set ?xs.
        (localeCompare a b < 0 \<longleftrightarrow> a < b) \<and> (localeCompare a b = 0 \<longleftrightarrow> a = b)"
  have keys: "set (map fst ?gs) = dayBucket ` set ?xs"
  proof -
    have "d \<in> fst ` set ?gs \<longleftrightarrow> d \<in> dayBucket ` set ?xs" for d
    proof
      assume "d \<in> fst ` set ?gs"
      then obtain arts where "(d, arts) \<in> set ?gs" by auto
      then show "d \<in> dayBucket ` set ?xs" by (simp add: groups_member)
    next
      assume "d \<in> dayBucket ` set ?xs"
      then have "(d, filter (\<lambda>a. dayBucket a = d) ?xs) \<in> set ?gs"
        by (simp add: groups_member)
      then show "d \<in> fst ` set ?gs" by force
    qed
    then show ?thesis by auto
  qed
  have dates: "date ` set ?dgs = dayBucket ` set ?xs"
    using keys date_mkDayGroup[of ?gs] by (metis list.set_map)
  have le: "(?c x y \<le> 0) = (date y \<le> date x)" if "x \<in> set ?dgs" "y \<in> set ?dgs" for x y
  proof -
    from that dates have "date x \<in> dayBucket ` set ?xs" "date y \<in> dayBucket ` set ?xs"
      by blast+
    with h have "(localeCompare (date y) (date x) < 0 \<longleftrightarrow> date y < date x)
       \<and> (localeCompare (date y) (date x) = 0 \<longleftrightarrow> date y = date x)"
      by blast
    then show ?thesis
      by (auto simp: le_less)
  qed
  have "sorted_wrt (\<lambda>g h. date h \<le> date g) (sort_cmp ?c ?dgs)"
    by (rule sorted_sort_cmp) (simp add: le)
  moreover have "distinct (map date (sort_cmp ?c ?dgs))"
  proof -
    have "distinct (map date ?dgs)"
      unfolding date_mkDayGroup using groups_foldl[of ?xs] by blast
    then show ?thesis
      by (simp only: distinct_sort_cmp)
  qed
  ultimately have "sorted_wrt (\<lambda>g h. date h < date g) (sort_cmp ?c ?dgs)"
    by (rule strict_of_distinct)
  moreover have "set (map date (sort_cmp ?c ?dgs)) = dayBucket ` set ?xs"
    using dates by (simp add: set_sort_cmp)
  ultimately show "sorted_wrt (\<lambda>g h. date h < date g) (getDayGroups localeCompare t fault uid)
   \<and> set (map date (getDayGroups localeCompare t fault uid)) = dayBucket ` set ?xs"
    by (simp add: getDayGroups_def Let_def)
qed


lemma codeunit_compare_sign:
  "(codeunit_compare a b < 0 \<longleftrightarrow> a < b) \<and> (codeunit_compare a b = 0 \<longleftrightarrow> a = b)"
  by (simp add: codeunit_compare_def)

lemma example_day_groups:
  "map date (getDayGroups codeunit_compare [example_row, example_row2, example_row3] None
     ''demo-user'') = [''2024-01-02'', ''2024-01-01'']"
  "map stats (getDayGroups codeunit_compare [example_row, example_row2, example_row3] None
     ''demo-user'')
     = [\<lparr>total = 1, pending = 1, ready = 0, completed = 0\<rparr>,
        \<lparr>total = 2, pending = 0, ready = 1, completed = 0\<rparr>]"
  "map (\<lambda>g. map artifact_id (artifacts g))
     (getDayGroups codeunit_compare [example_row, example_row2, example_row3] None ''demo-user'')
     = [[''a2''], [''a3'', ''a1'']]"
  by code_simp+

theorem day_group_stats_witness:
  "map date (getDayGroups codeunit_compare [example_row, example_row2, example_row3] None
     ''demo-user'') = [''2024-01-02'', ''2024-01-01'']
   \<and> map stats (getDayGroups codeunit_compare [example_row, example_row2, example_row3] None
     ''demo-user'')
     = [\<lparr>total = 1, pending = 1, ready = 0, completed = 0\<rparr>,
        \<lparr>total = 2, pending = 0, ready = 1, completed = 0\<rparr>]
   \<and> map (\<lambda>g. map artifact_id (artifacts g))
       (getDayGroups codeunit_compare [example_row, example_row2, example_row3] None ''demo-user'')
     = [[''a2''], [''a3'', ''a1'']]
   \<and> list_all
        (\<lambda>g. total (stats g) = length (artifacts g)
           \<and> pending (stats g) + ready (stats g) + completed (stats g)
               + length (filter (\<lambda>a. status a = Playing) (artifacts g)) = total (stats g))
        (getDayGroups codeunit_compare [example_row, example_row2, example_row3] None
           ''demo-user'')"
proof -
  have "list_all
        (\<lambda>g. total (stats g) = length (artifacts g)
           \<and> pending (stats g) + ready (stats g) + completed (stats g)
               + length (filter (\<lambda>a. status a = Playing) (artifacts g)) = total (stats g))
        (getDayGroups codeunit_compare [example_row, example_row2, example_row3] None
           ''demo-user'')"
    unfolding list_all_iff
    using day_group_stats
            [of codeunit_compare "[example_row, example_row2, example_row3]" None "''demo-user''"]
    by blast
  with example_day_groups show ?thesis
    by (intro conjI) assumption+
qed

theorem day_groups_sorted_descending_witness:
  "(\<forall>a b. (codeunit_compare a b < 0 \<longleftrightarrow> a < b) \<and> (codeunit_compare a b = 0 \<longleftrightarrow> a = b))
   \<and> map date (getDayGroups codeunit_compare [example_row, example_row2, example_row3] None
        ''demo-user'') = [''2024-01-02'', ''2024-01-01'']
   \<and> sorted_wrt (\<lambda>g h. date h < date g)
        (getDayGroups codeunit_compare [example_row, example_row2, example_row3] None
           ''demo-user'')"
proof -
  have sign: "\<forall>a b. (codeunit_compare a b < 0 \<longleftrightarrow> a < b) \<and> (codeunit_compare a b = 0 \<longleftrightarrow> a = b)"
    using codeunit_compare_sign by blast
  then have "sorted_wrt (\<lambda>g h. date h < date g)
        (getDayGroups codeunit_compare [example_row, example_row2, example_row3] None
           ''demo-user'')"
    using day_groups_sorted_descending
            [of "[example_row, example_row2, example_row3]" None "''demo-user''" codeunit_compare]
    by blast
  with sign example_day_groups(1) show ?thesis
    by (intro conjI) assumption+
qed

end
